theory Spec2Isabelle
  imports Main
begin

section \<open>Status enumerations and the transition tables\<close>

text \<open>
  The generated protobuf enumerations \<^verbatim>\<open>genproto.VehicleStatus\<close> and
  \<^verbatim>\<open>genproto.DriverStatus\<close>. The value names are the ones the Go code and the
  SQL \<^verbatim>\<open>ENUM\<close> columns of the migrations use.
\<close>

datatype VehicleStatus =
    VehicleStatus_STATUS_UNSPECIFIED
  | VehicleStatus_ACTIVE
  | VehicleStatus_MAINTENANCE
  | VehicleStatus_RETIRED
  | VehicleStatus_ASSIGNED

datatype DriverStatus =
    DriverStatus_STATUS_UNSPECIFIED
  | DriverStatus_PENDING_VERIFICATION
  | DriverStatus_ACTIVE
  | DriverStatus_SUSPENDED
  | DriverStatus_INACTIVE

text \<open>
  \<^verbatim>\<open>types.ValidStatusTransitions\<close> (vehicle service, types.go): a Go map from a status
  to the slice of statuses it may move to. A key that is absent from the map literal is
  \<open>None\<close>.
\<close>

fun ValidStatusTransitions :: "VehicleStatus \<Rightarrow> VehicleStatus list option" where
  "ValidStatusTransitions VehicleStatus_ACTIVE =
     Some [VehicleStatus_ASSIGNED, VehicleStatus_MAINTENANCE, VehicleStatus_RETIRED]"
| "ValidStatusTransitions VehicleStatus_ASSIGNED =
     Some [VehicleStatus_ACTIVE, VehicleStatus_MAINTENANCE]"
| "ValidStatusTransitions VehicleStatus_MAINTENANCE =
     Some [VehicleStatus_ACTIVE, VehicleStatus_RETIRED]"
| "ValidStatusTransitions VehicleStatus_RETIRED = Some []"
| "ValidStatusTransitions VehicleStatus_STATUS_UNSPECIFIED = None"

text \<open>
  The loop \<^verbatim>\<open>for _, allowed := range allowedTransitions { if allowed == to { return true } }\<close>
  followed by \<^verbatim>\<open>return false\<close>, shared by both transition predicates.
\<close>

fun range_allowed :: "'a list \<Rightarrow> 'a \<Rightarrow> bool" where
  "range_allowed [] to = False"
| "range_allowed (allowed # rest) to = (if allowed = to then True else range_allowed rest to)"

definition IsValidStatusTransition :: "VehicleStatus \<Rightarrow> VehicleStatus \<Rightarrow> bool" where
  "IsValidStatusTransition from to =
     (case ValidStatusTransitions from of
        None \<Rightarrow> False
      | Some allowedTransitions \<Rightarrow> range_allowed allowedTransitions to)"

text \<open>\<^verbatim>\<open>types.ValidDriverStatusTransitions\<close> (staff service, types.go).\<close>

fun ValidDriverStatusTransitions :: "DriverStatus \<Rightarrow> DriverStatus list option" where
  "ValidDriverStatusTransitions DriverStatus_PENDING_VERIFICATION =
     Some [DriverStatus_ACTIVE, DriverStatus_INACTIVE]"
| "ValidDriverStatusTransitions DriverStatus_ACTIVE =
     Some [DriverStatus_SUSPENDED, DriverStatus_INACTIVE]"
| "ValidDriverStatusTransitions DriverStatus_SUSPENDED =
     Some [DriverStatus_ACTIVE, DriverStatus_INACTIVE]"
| "ValidDriverStatusTransitions DriverStatus_INACTIVE =
     Some [DriverStatus_ACTIVE, DriverStatus_PENDING_VERIFICATION]"
| "ValidDriverStatusTransitions DriverStatus_STATUS_UNSPECIFIED = None"

definition IsValidDriverStatusTransition :: "DriverStatus \<Rightarrow> DriverStatus \<Rightarrow> bool" where
  "IsValidDriverStatusTransition from to =
     (case ValidDriverStatusTransitions from of
        None \<Rightarrow> False
      | Some allowedTransitions \<Rightarrow> range_allowed allowedTransitions to)"

text \<open>The edge sets of the specification's table, written out as sets of ordered pairs.\<close>

definition driver_edges :: "(DriverStatus \<times> DriverStatus) set" where
  "driver_edges =
     {(DriverStatus_PENDING_VERIFICATION, DriverStatus_ACTIVE),
      (DriverStatus_PENDING_VERIFICATION, DriverStatus_INACTIVE),
      (DriverStatus_ACTIVE, DriverStatus_SUSPENDED),
      (DriverStatus_ACTIVE, DriverStatus_INACTIVE),
      (DriverStatus_SUSPENDED, DriverStatus_ACTIVE),
      (DriverStatus_SUSPENDED, DriverStatus_INACTIVE),
      (DriverStatus_INACTIVE, DriverStatus_ACTIVE),
      (DriverStatus_INACTIVE, DriverStatus_PENDING_VERIFICATION)}"

definition vehicle_edges :: "(VehicleStatus \<times> VehicleStatus) set" where
  "vehicle_edges =
     {(VehicleStatus_ACTIVE, VehicleStatus_ASSIGNED),
      (VehicleStatus_ACTIVE, VehicleStatus_MAINTENANCE),
      (VehicleStatus_ACTIVE, VehicleStatus_RETIRED),
      (VehicleStatus_ASSIGNED, VehicleStatus_ACTIVE),
      (VehicleStatus_ASSIGNED, VehicleStatus_MAINTENANCE),
      (VehicleStatus_MAINTENANCE, VehicleStatus_ACTIVE),
      (VehicleStatus_MAINTENANCE, VehicleStatus_RETIRED)}"

section \<open>Page tokens: base64url over RFC 3339 text\<close>

subsection \<open>\<^verbatim>\<open>base64.URLEncoding\<close>\<close>

text \<open>
  The store builds and reads page tokens with Go's \<^verbatim>\<open>encoding/base64\<close>,
  \<^verbatim>\<open>base64.URLEncoding\<close>: the URL-safe alphabet of RFC 4648 with \<open>=\<close> padding.
  A Go string is a byte sequence; a \<^typ>\<open>char\<close> is one byte.
\<close>

definition encodeURL :: string where
  "encodeURL = ''ABCDEFGHIJKLMNOPQRSTUVWXYZabcdefghijklmnopqrstuvwxyz0123456789-_''"

definition enc :: "nat \<Rightarrow> char" where
  "enc i = encodeURL ! i"

text \<open>
  \<^verbatim>\<open>EncodeToString\<close>: three input bytes make the 24-bit value
  \<^verbatim>\<open>val = b0<<16 | b1<<8 | b2\<close>, written as the four characters
  \<^verbatim>\<open>enc[val>>18&0x3F], enc[val>>12&0x3F], enc[val>>6&0x3F], enc[val&0x3F]\<close>; a remainder of
  one or two bytes is padded with \<open>=\<close>.
\<close>

fun EncodeToString :: "string \<Rightarrow> string" where
  "EncodeToString [] = []"
| "EncodeToString [b0] =
     (let val = (of_char b0 :: nat) * 65536
      in [enc (val div 262144 mod 64), enc (val div 4096 mod 64), CHR ''='', CHR ''=''])"
| "EncodeToString [b0, b1] =
     (let val = (of_char b0 :: nat) * 65536 + of_char b1 * 256
      in [enc (val div 262144 mod 64), enc (val div 4096 mod 64), enc (val div 64 mod 64),
          CHR ''=''])"
| "EncodeToString (b0 # b1 # b2 # rest) =
     (let val = (of_char b0 :: nat) * 65536 + of_char b1 * 256 + of_char b2
      in [enc (val div 262144 mod 64), enc (val div 4096 mod 64), enc (val div 64 mod 64),
          enc (val mod 64)] @ EncodeToString rest)"

text \<open>
  The decoding table \<^verbatim>\<open>decodeMap\<close>: the position of a character in the alphabet,
  \<open>None\<close> where Go's table holds \<^verbatim>\<open>0xFF\<close>.
\<close>

fun index_of :: "'a list \<Rightarrow> 'a \<Rightarrow> nat option" where
  "index_of [] c = None"
| "index_of (x # xs) c = (if x = c then Some 0 else map_option Suc (index_of xs c))"

definition decodeMap :: "char \<Rightarrow> nat option" where
  "decodeMap c = index_of encodeURL c"

text \<open>
  \<^verbatim>\<open>DecodeString\<close> skips \<^verbatim>\<open>\r\<close> and \<^verbatim>\<open>\n\<close> wherever they stand, reads
  the rest in quanta of four characters, accepts padding only in the last quantum
  (\<^verbatim>\<open>xx==\<close> or \<^verbatim>\<open>xxx=\<close>) and fails with \<^verbatim>\<open>CorruptInputError\<close> on any other
  character, on a short last quantum and on anything after the padding. The encoding is
  not strict: the unused low bits of a padded quantum are ignored.
\<close>

definition skip_newlines :: "string \<Rightarrow> string" where
  "skip_newlines s = filter (\<lambda>c. c \<noteq> CHR 0x0A \<and> c \<noteq> CHR 0x0D) s"

fun decodeQuantum :: "string \<Rightarrow> string option" where
  "decodeQuantum [] = Some []"
| "decodeQuantum (c0 # c1 # c2 # c3 # rest) =
     (case (decodeMap c0, decodeMap c1) of
        (Some d0, Some d1) \<Rightarrow>
          (case decodeMap c2 of
             Some d2 \<Rightarrow>
               (case decodeMap c3 of
                  Some d3 \<Rightarrow>
                    (let val = d0 * 262144 + d1 * 4096 + d2 * 64 + d3
                     in map_option
                          (\<lambda>tl. [char_of (val div 65536), char_of (val div 256 mod 256),
                                 char_of (val mod 256)] @ tl)
                          (decodeQuantum rest))
                | None \<Rightarrow>
                    (if c3 = CHR ''='' \<and> rest = []
                     then (let val = d0 * 262144 + d1 * 4096 + d2 * 64
                           in Some [char_of (val div 65536), char_of (val div 256 mod 256)])
                     else None))
           | None \<Rightarrow>
               (if c2 = CHR ''='' \<and> c3 = CHR ''='' \<and> rest = []
                then (let val = d0 * 262144 + d1 * 4096
                      in Some [char_of (val div 65536)])
                else None))
      | _ \<Rightarrow> None)"
| "decodeQuantum _ = None"

datatype go_error =
    CorruptInputError
  | ParseError
  | MarshalRangeError

definition DecodeString :: "string \<Rightarrow> go_error + string" where
  "DecodeString s =
     (case decodeQuantum (skip_newlines s) of
        None \<Rightarrow> Inl CorruptInputError
      | Some bytes \<Rightarrow> Inr bytes)"

subsection \<open>\<^verbatim>\<open>time.Time\<close> and its RFC 3339 text form\<close>

text \<open>
  A \<^verbatim>\<open>time.Time\<close> is modelled by what its methods show: the calendar date and the
  clock in the time's own zone, the nanosecond, and the zone's offset east of UTC in
  seconds. Values read back from the store are UTC (\<^verbatim>\<open>timestamppb.AsTime\<close>), offset 0.
\<close>

record Time =
  t_year :: int
  t_month :: nat
  t_day :: nat
  t_hour :: nat
  t_minute :: nat
  t_second :: nat
  t_nsec :: nat
  t_offset :: int

definition isLeap :: "int \<Rightarrow> bool" where
  "isLeap y = (y mod 4 = 0 \<and> (y mod 100 \<noteq> 0 \<or> y mod 400 = 0))"

definition daysIn :: "nat \<Rightarrow> int \<Rightarrow> nat" where
  "daysIn m y =
     (if m = 2 then (if isLeap y then 29 else 28)
      else if m = 4 \<or> m = 6 \<or> m = 9 \<or> m = 11 then 30 else 31)"

text \<open>
  The times \<^verbatim>\<open>Time.MarshalText\<close> can write and \<^verbatim>\<open>UnmarshalText\<close> gives back
  unchanged: fields in their calendar ranges, a four-digit year, and a zone offset of
  whole minutes below 24 hours.
\<close>

definition representable :: "Time \<Rightarrow> bool" where
  "representable t =
     (0 \<le> t_year t \<and> t_year t \<le> 9999 \<and> 1 \<le> t_month t \<and> t_month t \<le> 12
      \<and> 1 \<le> t_day t \<and> t_day t \<le> daysIn (t_month t) (t_year t)
      \<and> t_hour t < 24 \<and> t_minute t < 60 \<and> t_second t < 60 \<and> t_nsec t < 1000000000
      \<and> t_offset t mod 60 = 0 \<and> - 86400 < t_offset t \<and> t_offset t < 86400)"

text \<open>
  Seconds since January 1, year 1, 00:00:00 UTC (\<^verbatim>\<open>Time.sec\<close>), from the fields the way
  \<^verbatim>\<open>time.Date\<close> counts days; \<^verbatim>\<open>IsZero\<close>, \<^verbatim>\<open>After\<close>.
\<close>

definition daysBefore :: "nat \<Rightarrow> int" where
  "daysBefore m = [0, 31, 59, 90, 120, 151, 181, 212, 243, 273, 304, 334, 365] ! m"

definition daysSinceYear1 :: "int \<Rightarrow> int" where
  "daysSinceYear1 y = 365 * (y - 1) + (y - 1) div 4 - (y - 1) div 100 + (y - 1) div 400"

definition abs_sec :: "Time \<Rightarrow> int" where
  "abs_sec t =
     (daysSinceYear1 (t_year t) + daysBefore (t_month t - 1)
        + (if isLeap (t_year t) \<and> 3 \<le> t_month t then 1 else 0) + (int (t_day t) - 1)) * 86400
     + int (t_hour t) * 3600 + int (t_minute t) * 60 + int (t_second t) - t_offset t"

definition IsZero :: "Time \<Rightarrow> bool" where
  "IsZero t = (abs_sec t = 0 \<and> t_nsec t = 0)"

definition After :: "Time \<Rightarrow> Time \<Rightarrow> bool" where
  "After t u = (abs_sec t > abs_sec u \<or> (abs_sec t = abs_sec u \<and> t_nsec t > t_nsec u))"

text \<open>The zero \<^verbatim>\<open>time.Time\<close> (\<^verbatim>\<open>var cursorTime time.Time\<close>).\<close>

definition zeroTime :: Time where
  "zeroTime = \<lparr>t_year = 1, t_month = 1, t_day = 1, t_hour = 0, t_minute = 0, t_second = 0,
               t_nsec = 0, t_offset = 0\<rparr>"

text \<open>
  \<^verbatim>\<open>appendInt(b, x, width)\<close>: the decimal digits of \<open>x\<close>, zero-padded to
  \<open>width\<close>, after a minus sign when \<open>x\<close> is negative.
\<close>

definition digit :: "nat \<Rightarrow> char" where
  "digit d = char_of (48 + d)"

fun digits :: "nat \<Rightarrow> nat \<Rightarrow> string" where
  "digits 0 x = []"
| "digits (Suc w) x = digits w (x div 10) @ [digit (x mod 10)]"

fun ndigits :: "nat \<Rightarrow> nat \<Rightarrow> nat" where
  "ndigits 0 x = 0"
| "ndigits (Suc fuel) x = (if x = 0 then 0 else Suc (ndigits fuel (x div 10)))"

definition appendUint :: "nat \<Rightarrow> nat \<Rightarrow> string" where
  "appendUint u width =
     (if width = 2 \<and> u < 100 then [digit (u div 10), digit (u mod 10)]
      else if width = 4 \<and> u < 10000
        then [digit (u div 1000), digit (u div 100 mod 10), digit (u div 10 mod 10),
              digit (u mod 10)]
      else digits (max width (ndigits (Suc u) u)) u)"

definition appendInt :: "int \<Rightarrow> nat \<Rightarrow> string" where
  "appendInt x width =
     (if x < 0 then CHR ''-'' # appendUint (nat (- x)) width else appendUint (nat x) width)"

text \<open>
  \<^verbatim>\<open>appendNano\<close> for the layout \<^verbatim>\<open>.999999999\<close>: nothing for a zero nanosecond,
  else a period and nine digits with the trailing zeros removed.
\<close>

definition appendNano :: "nat \<Rightarrow> string" where
  "appendNano nanosec =
     (if nanosec = 0 then []
      else (let b = CHR ''.'' # appendUint nanosec 9;
                b' = rev (dropWhile (\<lambda>c. c = CHR ''0'') (rev b))
            in if b' \<noteq> [] \<and> last b' = CHR ''.'' then butlast b' else b'))"

text \<open>Go's integer division truncates toward zero.\<close>

definition quo :: "int \<Rightarrow> int \<Rightarrow> int" where
  "quo a b = (if a < 0 then - ((- a) div b) else a div b)"

text \<open>
  \<^verbatim>\<open>Time.appendFormatRFC3339(b, true)\<close>, which is also
  \<^verbatim>\<open>Time.Format(time.RFC3339Nano)\<close>.
\<close>

definition appendZone :: "int \<Rightarrow> string" where
  "appendZone offset =
     (if offset = 0 then ''Z''
      else (let zone = quo offset 60;
                sign = (if zone < 0 then CHR ''-'' else CHR ''+'');
                zone' = (if zone < 0 then - zone else zone)
            in sign # appendInt (zone' div 60) 2 @ '':'' @ appendInt (zone' mod 60) 2))"

definition Format_RFC3339Nano :: "Time \<Rightarrow> string" where
  "Format_RFC3339Nano t =
     appendInt (t_year t) 4 @ ''-'' @ appendInt (int (t_month t)) 2 @ ''-''
       @ appendInt (int (t_day t)) 2 @ ''T'' @ appendInt (int (t_hour t)) 2 @ '':''
       @ appendInt (int (t_minute t)) 2 @ '':'' @ appendInt (int (t_second t)) 2
       @ appendNano (t_nsec t) @ appendZone (t_offset t)"

text \<open>
  \<^verbatim>\<open>Time.MarshalText\<close>: the RFC 3339 text with nanoseconds, refused when the year is
  outside \<open>[0, 9999]\<close> or the zone's hour is outside \<open>[0, 23]\<close>.
\<close>

definition MarshalText :: "Time \<Rightarrow> go_error + string" where
  "MarshalText t =
     (if t_year t < 0 \<or> 9999 < t_year t then Inl MarshalRangeError
      else if t_offset t \<noteq> 0 \<and> 24 \<le> \<bar>quo (t_offset t) 60\<bar> div 60 then Inl MarshalRangeError
      else Inr (Format_RFC3339Nano t))"

text \<open>
  \<^verbatim>\<open>Time.UnmarshalText\<close> reads RFC 3339 text the way \<^verbatim>\<open>time.Parse\<close> reads the
  layout \<^verbatim>\<open>2006-01-02T15:04:05Z07:00\<close>. The helpers are those of the \<^verbatim>\<open>time\<close>
  package: \<^verbatim>\<open>isDigit\<close>, \<^verbatim>\<open>getnum\<close>, \<^verbatim>\<open>atoi\<close>, \<^verbatim>\<open>parseNanoseconds\<close>.
\<close>

definition isDigit :: "string \<Rightarrow> nat \<Rightarrow> bool" where
  "isDigit s i = (i < length s \<and> 48 \<le> (of_char (s ! i) :: nat) \<and> (of_char (s ! i) :: nat) \<le> 57)"

definition digitVal :: "char \<Rightarrow> nat" where
  "digitVal c = of_char c - 48"

definition getnum :: "string \<Rightarrow> bool \<Rightarrow> (nat \<times> string) option" where
  "getnum s fixed =
     (if \<not> isDigit s 0 then None
      else if \<not> isDigit s 1 then (if fixed then None else Some (digitVal (s ! 0), drop 1 s))
      else Some (digitVal (s ! 0) * 10 + digitVal (s ! 1), drop 2 s))"

text \<open>\<^verbatim>\<open>atoi\<close> on a string of digits: the loop \<^verbatim>\<open>x = x*10 + int(c) - '0'\<close>.\<close>

fun atoi_loop :: "nat \<Rightarrow> string \<Rightarrow> nat" where
  "atoi_loop x [] = x"
| "atoi_loop x (c # cs) = atoi_loop (x * 10 + digitVal c) cs"

text \<open>A literal character of the layout must stand at the head of the input.\<close>

definition skip_char :: "char \<Rightarrow> string \<Rightarrow> string option" where
  "skip_char c s = (case s of [] \<Rightarrow> None | x # rest \<Rightarrow> if x = c then Some rest else None)"

text \<open>The year (\<^verbatim>\<open>stdLongYear\<close>): exactly four digits.\<close>

definition parse_year :: "string \<Rightarrow> (nat \<times> string) option" where
  "parse_year s =
     (if length s < 4 \<or> \<not> isDigit s 0 then None
      else if isDigit s 1 \<and> isDigit s 2 \<and> isDigit s 3
        then Some (atoi_loop 0 (take 4 s), drop 4 s)
      else None)"

text \<open>
  After the seconds, a fractional second the layout does not mention: a comma or a period
  and at least one digit. \<^verbatim>\<open>parseNanoseconds\<close> reads at most nine digits and scales them
  to nanoseconds.
\<close>

definition commaOrPeriod :: "char \<Rightarrow> bool" where
  "commaOrPeriod c = (c = CHR ''.'' \<or> c = CHR '','')"

definition parseNanoseconds :: "string \<Rightarrow> nat \<Rightarrow> nat" where
  "parseNanoseconds s nbytes =
     (let nbytes' = (if nbytes > 10 then 10 else nbytes)
      in atoi_loop 0 (take (nbytes' - 1) (drop 1 s)) * 10 ^ (10 - nbytes'))"

definition parse_fraction :: "string \<Rightarrow> nat \<times> string" where
  "parse_fraction s =
     (if 2 \<le> length s \<and> commaOrPeriod (s ! 0) \<and> isDigit s 1
      then (let n = 1 + length (takeWhile (\<lambda>c. isDigit [c] 0) (drop 1 s))
            in (parseNanoseconds s n, drop n s))
      else (0, s))"

text \<open>
  The zone (\<^verbatim>\<open>stdISO8601ColonTZ\<close>): \<open>Z\<close>, or a sign, two digits, a colon and two
  digits; hours above 24 and minutes above 60 are range errors.
\<close>

definition parse_zone :: "string \<Rightarrow> (int \<times> string) option" where
  "parse_zone s =
     (if 1 \<le> length s \<and> s ! 0 = CHR ''Z'' then Some (0, drop 1 s)
      else if length s < 6 then None
      else if s ! 3 \<noteq> CHR '':'' then None
      else (case getnum (take 2 (drop 1 s)) True of
              None \<Rightarrow> None
            | Some (hr, _) \<Rightarrow>
                (case getnum (take 2 (drop 4 s)) True of
                   None \<Rightarrow> None
                 | Some (mm, _) \<Rightarrow>
                     (if 24 < hr \<or> 60 < mm then None
                      else if s ! 0 = CHR ''+'' then Some (int ((hr * 60 + mm) * 60), drop 6 s)
                      else if s ! 0 = CHR ''-'' then Some (- int ((hr * 60 + mm) * 60), drop 6 s)
                      else None))))"

text \<open>The date \<^verbatim>\<open>2006-01-02\<close>; the day is checked against the month at the end.\<close>

definition parse_date :: "string \<Rightarrow> ((nat \<times> nat \<times> nat) \<times> string) option" where
  "parse_date s0 =
     Option.bind (parse_year s0) (\<lambda>(year, s1).
     Option.bind (skip_char CHR ''-'' s1) (\<lambda>s2.
     Option.bind (getnum s2 True) (\<lambda>(month, s3).
     if month = 0 \<or> 12 < month then None else
     Option.bind (skip_char CHR ''-'' s3) (\<lambda>s4.
     Option.bind (getnum s4 True) (\<lambda>(day, s5).
     Some ((year, month, day), s5))))))"

text \<open>The clock \<^verbatim>\<open>15:04:05\<close>; the hour may have one digit or two.\<close>

definition parse_clock :: "string \<Rightarrow> ((nat \<times> nat \<times> nat) \<times> string) option" where
  "parse_clock s6 =
     Option.bind (getnum s6 False) (\<lambda>(hour, s7).
     if 24 \<le> hour then None else
     Option.bind (skip_char CHR '':'' s7) (\<lambda>s8.
     Option.bind (getnum s8 True) (\<lambda>(minute, s9).
     if 60 \<le> minute then None else
     Option.bind (skip_char CHR '':'' s9) (\<lambda>s10.
     Option.bind (getnum s10 True) (\<lambda>(sec, s11).
     if 60 \<le> sec then None else Some ((hour, minute, sec), s11))))))"

definition parse_RFC3339 :: "string \<Rightarrow> Time option" where
  "parse_RFC3339 s0 =
     Option.bind (parse_date s0) (\<lambda>((year, month, day), s5).
     Option.bind (skip_char CHR ''T'' s5) (\<lambda>s6.
     Option.bind (parse_clock s6) (\<lambda>((hour, minute, sec), s11).
     case parse_fraction s11 of (nsec, s12) \<Rightarrow>
     Option.bind (parse_zone s12) (\<lambda>(zoneOffset, s13).
     if s13 \<noteq> [] then None
     else if day < 1 \<or> daysIn month (int year) < day then None
     else Some \<lparr>t_year = int year, t_month = month, t_day = day, t_hour = hour,
                 t_minute = minute, t_second = sec, t_nsec = nsec,
                 t_offset = zoneOffset\<rparr>))))"

definition UnmarshalText :: "string \<Rightarrow> go_error + Time" where
  "UnmarshalText data =
     (case parse_RFC3339 data of None \<Rightarrow> Inl ParseError | Some t \<Rightarrow> Inr t)"

subsection \<open>The page token codec of the store\<close>

text \<open>
  The two halves of \<^verbatim>\<open>ListVehicles\<close> that handle tokens. Writing:
  \<^verbatim>\<open>tokenBytes, err := lastCreatedAt.MarshalText()\<close> and
  \<^verbatim>\<open>base64.URLEncoding.EncodeToString(tokenBytes)\<close>. Reading:
  \<^verbatim>\<open>base64.URLEncoding.DecodeString(params.PageToken)\<close> and
  \<^verbatim>\<open>cursorTime.UnmarshalText(decoded)\<close>.
\<close>

definition encode_page_token :: "Time \<Rightarrow> go_error + string" where
  "encode_page_token t =
     (case MarshalText t of Inl e \<Rightarrow> Inl e | Inr tokenBytes \<Rightarrow> Inr (EncodeToString tokenBytes))"

definition decode_page_token :: "string \<Rightarrow> go_error + Time" where
  "decode_page_token token =
     (case DecodeString token of Inl e \<Rightarrow> Inl e | Inr decoded \<Rightarrow> UnmarshalText decoded)"

section \<open>The vehicle store\<close>

subsection \<open>Errors\<close>

text \<open>
  Go errors as values. The sentinels are those of \<^verbatim>\<open>types.go\<close> and
  \<^verbatim>\<open>database/sql\<close>; \<^verbatim>\<open>MySQLError n\<close> is a \<^verbatim>\<open>*mysql.MySQLError\<close> with
  \<^verbatim>\<open>Number == n\<close>; \<^verbatim>\<open>Errorf msg err\<close> is \<^verbatim>\<open>fmt.Errorf(msg + ": %w", err)\<close>, which
  wraps \<open>err\<close>; \<^verbatim>\<open>ErrorNew msg\<close> is an error that wraps nothing.
\<close>

datatype error =
    ErrVehicleNotFound
  | ErrDuplicateEntry
  | ErrVehicleTypeNotFound
  | ErrInvalidStatus
  | ErrVehicleInUse
  | ErrNoRows
  | ScanError
  | MySQLError nat
  | GoError go_error
  | ErrorNew string
  | Errorf string error

text \<open>\<^verbatim>\<open>errors.Is(err, target)\<close> for a sentinel target: equality along the chain of wraps.\<close>

fun errors_Is :: "error \<Rightarrow> error \<Rightarrow> bool" where
  "errors_Is (Errorf msg inner) target = (Errorf msg inner = target \<or> errors_Is inner target)"
| "errors_Is err target = (err = target)"

text \<open>
  \<^verbatim>\<open>errors.As(err, &mysqlErr) && mysqlErr.Number == 1062\<close>: the first MySQL error in the
  chain is a duplicate-key error.
\<close>

fun is_duplicate_key :: "error \<Rightarrow> bool" where
  "is_duplicate_key (MySQLError n) = (n = 1062)"
| "is_duplicate_key (Errorf msg inner) = is_duplicate_key inner"
| "is_duplicate_key err = False"

subsection \<open>Enumerations as the store writes them\<close>

text \<open>
  \<^verbatim>\<open>genproto.FuelType\<close>; the value names are those of the \<^verbatim>\<open>fuel_type\<close> column's
  \<^verbatim>\<open>ENUM\<close> in the migration. \<^verbatim>\<open>String()\<close> gives the name of a value, and the
  generated maps \<^verbatim>\<open>VehicleStatus_value\<close> and \<^verbatim>\<open>FuelType_value\<close> go back from a
  name to its value.
\<close>

datatype FuelType =
    FuelType_FUEL_UNSPECIFIED
  | FuelType_PETROL
  | FuelType_DIESEL
  | FuelType_ELECTRIC
  | FuelType_HYBRID

fun VehicleStatus_String :: "VehicleStatus \<Rightarrow> string" where
  "VehicleStatus_String VehicleStatus_STATUS_UNSPECIFIED = ''STATUS_UNSPECIFIED''"
| "VehicleStatus_String VehicleStatus_ACTIVE = ''ACTIVE''"
| "VehicleStatus_String VehicleStatus_MAINTENANCE = ''MAINTENANCE''"
| "VehicleStatus_String VehicleStatus_RETIRED = ''RETIRED''"
| "VehicleStatus_String VehicleStatus_ASSIGNED = ''ASSIGNED''"

definition VehicleStatus_value :: "string \<Rightarrow> VehicleStatus option" where
  "VehicleStatus_value s =
     (if s = ''STATUS_UNSPECIFIED'' then Some VehicleStatus_STATUS_UNSPECIFIED
      else if s = ''ACTIVE'' then Some VehicleStatus_ACTIVE
      else if s = ''MAINTENANCE'' then Some VehicleStatus_MAINTENANCE
      else if s = ''RETIRED'' then Some VehicleStatus_RETIRED
      else if s = ''ASSIGNED'' then Some VehicleStatus_ASSIGNED
      else None)"

fun FuelType_String :: "FuelType \<Rightarrow> string" where
  "FuelType_String FuelType_FUEL_UNSPECIFIED = ''FUEL_UNSPECIFIED''"
| "FuelType_String FuelType_PETROL = ''PETROL''"
| "FuelType_String FuelType_DIESEL = ''DIESEL''"
| "FuelType_String FuelType_ELECTRIC = ''ELECTRIC''"
| "FuelType_String FuelType_HYBRID = ''HYBRID''"

definition FuelType_value :: "string \<Rightarrow> FuelType option" where
  "FuelType_value s =
     (if s = ''FUEL_UNSPECIFIED'' then Some FuelType_FUEL_UNSPECIFIED
      else if s = ''PETROL'' then Some FuelType_PETROL
      else if s = ''DIESEL'' then Some FuelType_DIESEL
      else if s = ''ELECTRIC'' then Some FuelType_ELECTRIC
      else if s = ''HYBRID'' then Some FuelType_HYBRID
      else None)"

subsection \<open>Tables\<close>

text \<open>
  The tables of the vehicle service's migrations. A row of \<^verbatim>\<open>vehicles\<close> has the columns
  of \<^verbatim>\<open>create-vehicle.up.sql\<close> (\<open>make'\<close> is the column \<^verbatim>\<open>make\<close>); a \<^verbatim>\<open>NULL\<close> is
  \<open>None\<close>. The \<^verbatim>\<open>ENUM\<close> columns hold
  the value's name, which is what the Go code writes and compares. A \<^verbatim>\<open>uuid.UUID\<close> is its
  sixteen bytes (\<^verbatim>\<open>externalID.Bytes()\<close>, the \<^verbatim>\<open>BINARY(16)\<close> column). The key of
  \<^verbatim>\<open>vehicle_types\<close> is kept as the decimal text the Go code passes around.
\<close>

type_synonym uuid = string

record vehicle_row =
  internal_id :: nat
  external_id :: uuid
  vehicle_type_id :: string
  license_plate :: string
  make' :: string
  model :: string
  year :: int
  color :: string
  seating_capacity :: int
  fuel_type :: string
  engine_number :: "string option"
  chassis_number :: "string option"
  registration_date :: "Time option"
  insurance_expiry :: "Time option"
  status :: string
  created_at :: Time
  updated_at :: "Time option"

record vehicle_type_row =
  vt_id :: string
  vt_name :: string
  vt_description :: string
  vt_created_at :: Time

record database =
  vehicles :: "vehicle_row list"
  vehicle_types :: "vehicle_type_row list"

text \<open>
  What the schema guarantees of every state (primary and unique keys, the foreign key to
  \<^verbatim>\<open>vehicle_types\<close>, the \<^verbatim>\<open>ENUM\<close> columns), and what holds of every row this service
  writes: \<^verbatim>\<open>CreateVehicle\<close> and every update set \<^verbatim>\<open>updated_at\<close>, although the column
  admits \<^verbatim>\<open>NULL\<close>.
\<close>

definition wf_db :: "database \<Rightarrow> bool" where
  "wf_db db =
     (distinct (map internal_id (vehicles db))
      \<and> distinct (map external_id (vehicles db))
      \<and> distinct (map license_plate (vehicles db))
      \<and> distinct (map vt_id (vehicle_types db))
      \<and> list_all (\<lambda>r. vehicle_type_id r \<in> set (map vt_id (vehicle_types db))
                      \<and> VehicleStatus_value (status r) \<noteq> None
                      \<and> FuelType_value (fuel_type r) \<noteq> None
                      \<and> updated_at r \<noteq> None) (vehicles db))"

subsection \<open>The protobuf messages the store returns and receives\<close>

text \<open>\<^verbatim>\<open>genproto.Vehicle\<close>; a \<^verbatim>\<open>timestamppb.Timestamp\<close> is the UTC time it stands for.\<close>

record Vehicle =
  Id' :: string
  VehicleTypeId :: string
  VehicleTypeName :: string
  LicensePlate :: string
  Make :: string
  Model :: string
  Year :: int
  Color :: string
  SeatingCapacity :: int
  FuelType :: FuelType
  EngineNumber :: string
  ChassisNumber :: string
  RegistrationDate :: "Time option"
  InsuranceExpiry :: "Time option"
  Status :: VehicleStatus
  CreatedAt :: Time
  UpdatedAt :: Time

text \<open>\<^verbatim>\<open>types.VehicleData\<close>, \<^verbatim>\<open>types.VehicleUpdateFields\<close>, \<^verbatim>\<open>types.ListVehiclesParams\<close>.\<close>

record VehicleData =
  data_VehicleTypeID :: string
  data_LicensePlate :: string
  data_Make :: string
  data_Model :: string
  data_Year :: int
  data_Color :: string
  data_SeatingCapacity :: int
  data_FuelType :: FuelType
  data_EngineNumber :: "string option"
  data_ChassisNumber :: "string option"
  data_RegistrationDate :: "string option"
  data_InsuranceExpiry :: "string option"

record VehicleUpdateFields =
  upd_VehicleTypeID :: "string option"
  upd_LicensePlate :: "string option"
  upd_Make :: "string option"
  upd_Model :: "string option"
  upd_Year :: "int option"
  upd_Color :: "string option"
  upd_SeatingCapacity :: "int option"
  upd_FuelType :: "FuelType option"
  upd_EngineNumber :: "string option"
  upd_ChassisNumber :: "string option"
  upd_RegistrationDate :: "string option"
  upd_InsuranceExpiry :: "string option"

record ListVehiclesParams =
  PageSize :: int
  PageToken :: string
  StatusFilter :: "VehicleStatus option"
  VehicleTypeFilter :: "string option"
  MakeFilter :: "string option"

subsection \<open>Reading rows\<close>

text \<open>
  \<^verbatim>\<open>LOWER(HEX(v.external_id))\<close>: two lower-case hexadecimal digits for each byte.
\<close>

definition hex_digit :: "nat \<Rightarrow> char" where
  "hex_digit n = ''0123456789abcdef'' ! n"

definition LOWER_HEX :: "string \<Rightarrow> string" where
  "LOWER_HEX bytes =
     concat (map (\<lambda>b. [hex_digit ((of_char b :: nat) div 16), hex_digit ((of_char b :: nat) mod 16)])
       bytes)"

text \<open>
  \<^verbatim>\<open>FROM vehicles v INNER JOIN vehicle_types vt ON v.vehicle_type_id = vt.id\<close>: each
  vehicle row with the name of its type; a row whose type is missing is not selected.
\<close>

definition inner_join :: "database \<Rightarrow> (vehicle_row \<times> string) list" where
  "inner_join db =
     concat (map (\<lambda>v. map (\<lambda>vt. (v, vt_name vt))
                          (filter (\<lambda>vt. vt_id vt = vehicle_type_id v) (vehicle_types db)))
       (vehicles db))"

text \<open>
  \<^verbatim>\<open>populateVehicle\<close>, called on the scanned columns by \<^verbatim>\<open>scanVehicleFromRow\<close> and
  \<^verbatim>\<open>scanVehicleFromRows\<close>. \<^verbatim>\<open>Scan\<close> itself fails on a \<^verbatim>\<open>NULL\<close> \<^verbatim>\<open>updated_at\<close>,
  which it is asked to store into a \<^verbatim>\<open>time.Time\<close>.
\<close>

definition populateVehicle :: "vehicle_row \<times> string \<Rightarrow> Time \<Rightarrow> error + Vehicle" where
  "populateVehicle scanned updatedAt =
     (case scanned of (r, typeName) \<Rightarrow>
        (case VehicleStatus_value (status r) of
           None \<Rightarrow> Inl (ErrorNew ''invalid status value'')
         | Some statusVal \<Rightarrow>
             (case FuelType_value (fuel_type r) of
                None \<Rightarrow> Inl (ErrorNew ''invalid fuel type value'')
              | Some fuelTypeVal \<Rightarrow>
                  Inr \<lparr>Id' = LOWER_HEX (external_id r),
                       VehicleTypeId = vehicle_type_id r,
                       VehicleTypeName = typeName,
                       LicensePlate = license_plate r,
                       Make = make' r,
                       Model = model r,
                       Year = year r,
                       Color = color r,
                       SeatingCapacity = seating_capacity r,
                       FuelType = fuelTypeVal,
                       EngineNumber = (case engine_number r of None \<Rightarrow> [] | Some s \<Rightarrow> s),
                       ChassisNumber = (case chassis_number r of None \<Rightarrow> [] | Some s \<Rightarrow> s),
                       RegistrationDate = registration_date r,
                       InsuranceExpiry = insurance_expiry r,
                       Status = statusVal,
                       CreatedAt = created_at r,
                       UpdatedAt = updatedAt\<rparr>)))"

definition scanVehicleFromRows :: "vehicle_row \<times> string \<Rightarrow> error + Vehicle" where
  "scanVehicleFromRows scanned =
     (case updated_at (fst scanned) of
        None \<Rightarrow> Inl ScanError
      | Some updatedAt \<Rightarrow> populateVehicle scanned updatedAt)"

text \<open>
  \<^verbatim>\<open>scanVehicle\<close>: \<^verbatim>\<open>QueryRowContext\<close> and \<^verbatim>\<open>scanVehicleFromRow\<close> on the rows a
  \<^verbatim>\<open>LIMIT 1\<close> query selects; no row is \<^verbatim>\<open>sql.ErrNoRows\<close>.
\<close>

definition scanVehicle :: "(vehicle_row \<times> string) list \<Rightarrow> error + Vehicle" where
  "scanVehicle selected =
     (case selected of
        [] \<Rightarrow> Inl ErrNoRows
      | scanned # _ \<Rightarrow> scanVehicleFromRows scanned)"

definition store_GetVehicleByID :: "database \<Rightarrow> uuid \<Rightarrow> error + Vehicle" where
  "store_GetVehicleByID db externalID =
     (case scanVehicle (filter (\<lambda>(v, _). external_id v = externalID) (inner_join db)) of
        Inl err \<Rightarrow>
          (if errors_Is err ErrNoRows then Inl ErrVehicleNotFound
           else Inl (Errorf ''failed to get vehicle by ID'' err))
      | Inr vehicle \<Rightarrow> Inr vehicle)"

definition store_GetVehicleByLicensePlate :: "database \<Rightarrow> string \<Rightarrow> error + Vehicle" where
  "store_GetVehicleByLicensePlate db licensePlate =
     (case scanVehicle (filter (\<lambda>(v, _). license_plate v = licensePlate) (inner_join db)) of
        Inl err \<Rightarrow>
          (if errors_Is err ErrNoRows then Inl ErrVehicleNotFound
           else Inl (Errorf ''failed to get vehicle by license plate'' err))
      | Inr vehicle \<Rightarrow> Inr vehicle)"

text \<open>\<^verbatim>\<open>GetVehicleTypeByID\<close>, as far as the vehicle operations use it: found or not.\<close>

definition store_GetVehicleTypeByID :: "database \<Rightarrow> string \<Rightarrow> error + vehicle_type_row" where
  "store_GetVehicleTypeByID db typeID =
     (case filter (\<lambda>vt. vt_id vt = typeID) (vehicle_types db) of
        [] \<Rightarrow> Inl ErrVehicleTypeNotFound
      | vt # _ \<Rightarrow> Inr vt)"

subsection \<open>Listing\<close>

text \<open>
  \<^verbatim>\<open>v.make LIKE ?\<close>: \<open>%\<close> stands for any run of characters and \<open>_\<close> for any one
  character. The collation and the escape character are not modelled.
\<close>

fun sql_like :: "string \<Rightarrow> string \<Rightarrow> bool" where
  "sql_like [] [] = True"
| "sql_like (c # cs) [] = False"
| "sql_like s (p # ps) =
     (if p = CHR ''%'' then
        (sql_like s ps \<or> (case s of [] \<Rightarrow> False | _ # cs \<Rightarrow> sql_like cs (p # ps)))
      else (case s of
              [] \<Rightarrow> False
            | c # cs \<Rightarrow> (p = CHR ''_'' \<or> p = c) \<and> sql_like cs ps))"

text \<open>
  \<^verbatim>\<open>v.created_at > ?\<close> with the cursor text as the parameter: the row's time is after
  the time the text denotes. The server's own conversion of the text to a
  \<^verbatim>\<open>DATETIME\<close> is taken to read what \<^verbatim>\<open>Format(time.RFC3339Nano)\<close> wrote.
\<close>

definition created_after :: "Time \<Rightarrow> string \<Rightarrow> bool" where
  "created_after t cursorStr =
     (case parse_RFC3339 cursorStr of None \<Rightarrow> False | Some cursor \<Rightarrow> After t cursor)"

text \<open>
  \<^verbatim>\<open>ORDER BY v.created_at DESC\<close> by insertion; rows with equal times keep the order in
  which the table holds them (SQL leaves their order open).
\<close>

fun insert_desc :: "vehicle_row \<times> string \<Rightarrow> (vehicle_row \<times> string) list
    \<Rightarrow> (vehicle_row \<times> string) list" where
  "insert_desc x [] = [x]"
| "insert_desc x (y # ys) =
     (if After (created_at (fst y)) (created_at (fst x)) then y # insert_desc x ys
      else x # y # ys)"

definition order_by_created_at_desc :: "(vehicle_row \<times> string) list \<Rightarrow> (vehicle_row \<times> string) list"
  where "order_by_created_at_desc rows = foldr insert_desc rows []"

text \<open>
  \<^verbatim>\<open>listVehiclesQuery\<close>, with its nine placeholders given as the four strings the Go code
  passes twice each and the limit.
\<close>

definition listVehiclesQuery :: "database \<Rightarrow> string \<Rightarrow> string \<Rightarrow> string \<Rightarrow> string \<Rightarrow> nat
    \<Rightarrow> (vehicle_row \<times> string) list" where
  "listVehiclesQuery db statusStr vehicleTypeStr makePattern cursorStr limit =
     take limit
       (order_by_created_at_desc
          (filter (\<lambda>(v, _).
               (statusStr = [] \<or> status v = statusStr)
             \<and> (vehicleTypeStr = [] \<or> vehicle_type_id v = vehicleTypeStr)
             \<and> (makePattern = [] \<or> sql_like (make' v) makePattern)
             \<and> (cursorStr = [] \<or> created_after (created_at v) cursorStr))
            (inner_join db)))"

text \<open>
  The loop \<^verbatim>\<open>for rows.Next()\<close> of \<^verbatim>\<open>ListVehicles\<close>: every row read is appended to
  \<^verbatim>\<open>vehicles\<close> (here \<open>vs\<close>), and \<^verbatim>\<open>lastCreatedAt\<close> is set from every row read.
\<close>

fun rows_Next :: "(vehicle_row \<times> string) list \<Rightarrow> Vehicle list \<Rightarrow> Time
    \<Rightarrow> error + (Vehicle list \<times> Time)" where
  "rows_Next [] vs lastCreatedAt = Inr (vs, lastCreatedAt)"
| "rows_Next (scanned # rest) vs lastCreatedAt =
     (case scanVehicleFromRows scanned of
        Inl err \<Rightarrow> Inl (Errorf ''failed to scan vehicle'' err)
      | Inr vehicle \<Rightarrow> rows_Next rest (vs @ [vehicle]) (CreatedAt vehicle))"

text \<open>The first lines of \<^verbatim>\<open>ListVehicles\<close>: the cursor time of the page token.\<close>

definition parse_page_token :: "string \<Rightarrow> error + Time" where
  "parse_page_token pageToken =
     (if pageToken \<noteq> [] then
        (case DecodeString pageToken of
           Inl err \<Rightarrow> Inl (Errorf ''invalid page token'' (GoError err))
         | Inr decoded \<Rightarrow>
             (case UnmarshalText decoded of
                Inl err \<Rightarrow> Inl (Errorf ''invalid page token format'' (GoError err))
              | Inr cursorTime \<Rightarrow> Inr cursorTime))
      else Inr zeroTime)"

definition store_ListVehicles :: "database \<Rightarrow> ListVehiclesParams \<Rightarrow> error + (Vehicle list \<times> string)"
  where
  "store_ListVehicles db params0 =
     (let params = (if PageSize params0 \<le> 0 \<or> PageSize params0 > 100
                    then params0\<lparr>PageSize := 50\<rparr> else params0)
      in case parse_page_token (PageToken params) of
           Inl err \<Rightarrow> Inl err
         | Inr cursorTime \<Rightarrow>
             (let statusStr = (case StatusFilter params of
                                 None \<Rightarrow> [] | Some st \<Rightarrow> VehicleStatus_String st);
                  vehicleTypeStr = (case VehicleTypeFilter params of None \<Rightarrow> [] | Some s \<Rightarrow> s);
                  makePattern = (case MakeFilter params of
                                   None \<Rightarrow> [] | Some m \<Rightarrow> ''%'' @ m @ ''%'');
                  cursorStr = (if \<not> IsZero cursorTime then Format_RFC3339Nano cursorTime else []);
                  rows = listVehiclesQuery db statusStr vehicleTypeStr makePattern cursorStr
                           (nat (PageSize params + 1))
              in case rows_Next rows [] zeroTime of
                   Inl err \<Rightarrow> Inl err
                 | Inr (vs, lastCreatedAt) \<Rightarrow>
                     (if int (length vs) > PageSize params then
                        (case MarshalText lastCreatedAt of
                           Inl err \<Rightarrow> Inl (Errorf ''failed to create next page token'' (GoError err))
                         | Inr tokenBytes \<Rightarrow>
                             Inr (take (nat (PageSize params)) vs,
                                  EncodeToString tokenBytes))
                      else Inr (vs, []))))"

subsection \<open>Writing rows\<close>

text \<open>
  \<^verbatim>\<open>time.Parse("2006-01-02", s)\<close>: a four-digit year, a two-digit month and a two-digit
  day of that month, and nothing after them; the result is midnight UTC.
\<close>

definition Parse_date :: "string \<Rightarrow> Time option" where
  "Parse_date s =
     (case parse_date s of
        None \<Rightarrow> None
      | Some ((y, m, d), rest) \<Rightarrow>
          (if rest \<noteq> [] \<or> d < 1 \<or> daysIn m (int y) < d then None
           else Some \<lparr>t_year = int y, t_month = m, t_day = d, t_hour = 0, t_minute = 0,
                       t_second = 0, t_nsec = 0, t_offset = 0\<rparr>))"

text \<open>
  The optional dates of \<^verbatim>\<open>CreateVehicle\<close> and \<^verbatim>\<open>UpdateVehicle\<close>: a
  \<^verbatim>\<open>sql.NullTime\<close> that is valid only when a string is given and parses.
\<close>

definition NullTime_of :: "string option \<Rightarrow> Time option" where
  "NullTime_of s = (case s of None \<Rightarrow> None | Some text \<Rightarrow> Parse_date text)"

text \<open>
  \<^verbatim>\<open>INSERT INTO vehicles\<close> under the constraints of the migration: a repeated
  \<^verbatim>\<open>internal_id\<close>, \<^verbatim>\<open>external_id\<close> or \<^verbatim>\<open>license_plate\<close> is MySQL error 1062
  (duplicate entry), a \<^verbatim>\<open>vehicle_type_id\<close> without its row in \<^verbatim>\<open>vehicle_types\<close> is
  error 1452 (foreign key).
\<close>

definition insert_vehicle :: "database \<Rightarrow> vehicle_row \<Rightarrow> error + database" where
  "insert_vehicle db row =
     (if list_ex (\<lambda>r. internal_id r = internal_id row \<or> external_id r = external_id row
                      \<or> license_plate r = license_plate row) (vehicles db)
      then Inl (MySQLError 1062)
      else if \<not> list_ex (\<lambda>vt. vt_id vt = vehicle_type_id row) (vehicle_types db)
      then Inl (MySQLError 1452)
      else Inr (db\<lparr>vehicles := vehicles db @ [row]\<rparr>))"

text \<open>
  \<^verbatim>\<open>CreateVehicle\<close> of the store. The insert runs in a transaction: on an error the
  deferred rollback leaves the tables as they were. The result is the state after the call
  and the error, if any.
\<close>

definition store_CreateVehicle :: "database \<Rightarrow> Time \<Rightarrow> nat \<Rightarrow> uuid \<Rightarrow> VehicleData
    \<Rightarrow> database \<times> error option" where
  "store_CreateVehicle db now internalID externalID vehicle =
     (let row = \<lparr>internal_id = internalID,
                 external_id = externalID,
                 vehicle_type_id = data_VehicleTypeID vehicle,
                 license_plate = data_LicensePlate vehicle,
                 make' = data_Make vehicle,
                 model = data_Model vehicle,
                 year = data_Year vehicle,
                 color = data_Color vehicle,
                 seating_capacity = data_SeatingCapacity vehicle,
                 fuel_type = FuelType_String (data_FuelType vehicle),
                 engine_number = data_EngineNumber vehicle,
                 chassis_number = data_ChassisNumber vehicle,
                 registration_date = NullTime_of (data_RegistrationDate vehicle),
                 insurance_expiry = NullTime_of (data_InsuranceExpiry vehicle),
                 status = VehicleStatus_String VehicleStatus_ACTIVE,
                 created_at = now,
                 updated_at = Some now\<rparr>
      in case insert_vehicle db row of
           Inl err \<Rightarrow>
             (if is_duplicate_key err then (db, Some ErrDuplicateEntry)
              else (db, Some (Errorf ''failed to insert vehicle'' err)))
         | Inr db' \<Rightarrow> (db', None))"

text \<open>
  The twelve flags of \<^verbatim>\<open>UpdateVehicle\<close>. With a field mask, the loop over
  \<^verbatim>\<open>updateMask.Paths\<close> sets the flag each known path names and passes over any other
  path; without one, a flag is set when the field's pointer is not nil.
\<close>

record update_flags =
  updateVehicleTypeID :: bool
  updateLicensePlate :: bool
  updateMake :: bool
  updateModel :: bool
  updateYear :: bool
  updateColor :: bool
  updateSeatingCapacity :: bool
  updateFuelType :: bool
  updateEngineNumber :: bool
  updateChassisNumber :: bool
  updateRegistrationDate :: bool
  updateInsuranceExpiry :: bool

definition no_flags :: update_flags where
  "no_flags = \<lparr>updateVehicleTypeID = False, updateLicensePlate = False, updateMake = False,
               updateModel = False, updateYear = False, updateColor = False,
               updateSeatingCapacity = False, updateFuelType = False,
               updateEngineNumber = False, updateChassisNumber = False,
               updateRegistrationDate = False, updateInsuranceExpiry = False\<rparr>"

definition switch_path :: "update_flags \<Rightarrow> string \<Rightarrow> update_flags" where
  "switch_path f path =
     (if path = ''vehicle_type_id'' then f\<lparr>updateVehicleTypeID := True\<rparr>
      else if path = ''license_plate'' then f\<lparr>updateLicensePlate := True\<rparr>
      else if path = ''make'' then f\<lparr>updateMake := True\<rparr>
      else if path = ''model'' then f\<lparr>updateModel := True\<rparr>
      else if path = ''year'' then f\<lparr>updateYear := True\<rparr>
      else if path = ''color'' then f\<lparr>updateColor := True\<rparr>
      else if path = ''seating_capacity'' then f\<lparr>updateSeatingCapacity := True\<rparr>
      else if path = ''fuel_type'' then f\<lparr>updateFuelType := True\<rparr>
      else if path = ''engine_number'' then f\<lparr>updateEngineNumber := True\<rparr>
      else if path = ''chassis_number'' then f\<lparr>updateChassisNumber := True\<rparr>
      else if path = ''registration_date'' then f\<lparr>updateRegistrationDate := True\<rparr>
      else if path = ''insurance_expiry'' then f\<lparr>updateInsuranceExpiry := True\<rparr>
      else f)"

definition fields_to_update :: "VehicleUpdateFields \<Rightarrow> string list option \<Rightarrow> update_flags" where
  "fields_to_update updates updateMask =
     (case updateMask of
        Some paths \<Rightarrow> foldl switch_path no_flags paths
      | None \<Rightarrow>
          \<lparr>updateVehicleTypeID = (upd_VehicleTypeID updates \<noteq> None),
           updateLicensePlate = (upd_LicensePlate updates \<noteq> None),
           updateMake = (upd_Make updates \<noteq> None),
           updateModel = (upd_Model updates \<noteq> None),
           updateYear = (upd_Year updates \<noteq> None),
           updateColor = (upd_Color updates \<noteq> None),
           updateSeatingCapacity = (upd_SeatingCapacity updates \<noteq> None),
           updateFuelType = (upd_FuelType updates \<noteq> None),
           updateEngineNumber = (upd_EngineNumber updates \<noteq> None),
           updateChassisNumber = (upd_ChassisNumber updates \<noteq> None),
           updateRegistrationDate = (upd_RegistrationDate updates \<noteq> None),
           updateInsuranceExpiry = (upd_InsuranceExpiry updates \<noteq> None)\<rparr>)"

text \<open>
  The \<^verbatim>\<open>SET\<close> clause of \<^verbatim>\<open>updateVehicleQuery\<close> on one row: each column is
  \<^verbatim>\<open>CASE WHEN flag THEN value ELSE column END\<close>, and \<^verbatim>\<open>updated_at\<close> is always set.
  A value is the Go variable prepared for it: the zero value (an empty string, 0, an
  invalid \<^verbatim>\<open>NullString\<close> or \<^verbatim>\<open>NullTime\<close>) unless the flag is set and the pointer is
  not nil.
\<close>

definition update_set :: "Time \<Rightarrow> update_flags \<Rightarrow> VehicleUpdateFields \<Rightarrow> vehicle_row \<Rightarrow> vehicle_row"
  where
  "update_set now f updates r =
     r\<lparr>vehicle_type_id :=
         (if updateVehicleTypeID f
          then (case upd_VehicleTypeID updates of Some v \<Rightarrow> v | None \<Rightarrow> [])
          else vehicle_type_id r),
       license_plate :=
         (if updateLicensePlate f
          then (case upd_LicensePlate updates of Some v \<Rightarrow> v | None \<Rightarrow> [])
          else license_plate r),
       make' :=
         (if updateMake f then (case upd_Make updates of Some v \<Rightarrow> v | None \<Rightarrow> [])
          else make' r),
       model :=
         (if updateModel f then (case upd_Model updates of Some v \<Rightarrow> v | None \<Rightarrow> [])
          else model r),
       year :=
         (if updateYear f then (case upd_Year updates of Some v \<Rightarrow> v | None \<Rightarrow> 0)
          else year r),
       color :=
         (if updateColor f then (case upd_Color updates of Some v \<Rightarrow> v | None \<Rightarrow> [])
          else color r),
       seating_capacity :=
         (if updateSeatingCapacity f
          then (case upd_SeatingCapacity updates of Some v \<Rightarrow> v | None \<Rightarrow> 0)
          else seating_capacity r),
       fuel_type :=
         (if updateFuelType f
          then (case upd_FuelType updates of Some v \<Rightarrow> FuelType_String v | None \<Rightarrow> [])
          else fuel_type r),
       engine_number :=
         (if updateEngineNumber f then upd_EngineNumber updates else engine_number r),
       chassis_number :=
         (if updateChassisNumber f then upd_ChassisNumber updates else chassis_number r),
       registration_date :=
         (if updateRegistrationDate f then NullTime_of (upd_RegistrationDate updates)
          else registration_date r),
       insurance_expiry :=
         (if updateInsuranceExpiry f then NullTime_of (upd_InsuranceExpiry updates)
          else insurance_expiry r),
       updated_at := Some now\<rparr>"

text \<open>
  \<^verbatim>\<open>UPDATE vehicles SET ... WHERE external_id = ?\<close> under the constraints of the
  migration: the rows the \<^verbatim>\<open>WHERE\<close> clause selects are rewritten; a new
  \<^verbatim>\<open>license_plate\<close> that another row holds is error 1062 and a new
  \<^verbatim>\<open>vehicle_type_id\<close> without its type is error 1452. The count is of the rows selected.
\<close>

definition exec_update :: "database \<Rightarrow> (vehicle_row \<Rightarrow> bool) \<Rightarrow> (vehicle_row \<Rightarrow> vehicle_row)
    \<Rightarrow> error + (database \<times> nat)" where
  "exec_update db sel upd =
     (let rows' = map (\<lambda>r. if sel r then upd r else r) (vehicles db);
          touched = filter sel (vehicles db)
      in if list_ex (\<lambda>r. license_plate (upd r) \<noteq> license_plate r
                          \<and> 1 < length (filter (\<lambda>x. license_plate x = license_plate (upd r)) rows'))
              touched
         then Inl (MySQLError 1062)
         else if list_ex (\<lambda>r. vehicle_type_id (upd r) \<noteq> vehicle_type_id r
                               \<and> \<not> list_ex (\<lambda>vt. vt_id vt = vehicle_type_id (upd r))
                                     (vehicle_types db))
                   touched
         then Inl (MySQLError 1452)
         else Inr (db\<lparr>vehicles := rows'\<rparr>, length touched))"

text \<open>
  \<^verbatim>\<open>UpdateVehicle\<close> of the store: the statement runs in a transaction that is rolled
  back on an error and when no row was affected; after the commit the vehicle is read
  again.
\<close>

definition store_UpdateVehicle :: "database \<Rightarrow> Time \<Rightarrow> uuid \<Rightarrow> VehicleUpdateFields
    \<Rightarrow> string list option \<Rightarrow> database \<times> (error + Vehicle)" where
  "store_UpdateVehicle db now externalID updates updateMask =
     (let f = fields_to_update updates updateMask
      in case exec_update db (\<lambda>r. external_id r = externalID) (update_set now f updates) of
           Inl err \<Rightarrow>
             (if is_duplicate_key err then (db, Inl ErrDuplicateEntry)
              else (db, Inl (Errorf ''failed to update vehicle'' err)))
         | Inr (db', rowsAffected) \<Rightarrow>
             (if rowsAffected = 0 then (db, Inl ErrVehicleNotFound)
              else (db', store_GetVehicleByID db' externalID)))"

text \<open>
  \<^verbatim>\<open>UpdateVehicleStatus\<close> and \<^verbatim>\<open>DeleteVehicle\<close> of the store: single statements
  that touch \<^verbatim>\<open>status\<close> and \<^verbatim>\<open>updated_at\<close> only. \<^verbatim>\<open>deleteVehicleQuery\<close> is
  \<^verbatim>\<open>SET status = 'RETIRED', updated_at = ? WHERE external_id = ? AND status != 'RETIRED'\<close>.
\<close>

definition store_UpdateVehicleStatus :: "database \<Rightarrow> Time \<Rightarrow> uuid \<Rightarrow> VehicleStatus
    \<Rightarrow> database \<times> (error + Vehicle)" where
  "store_UpdateVehicleStatus db now externalID st =
     (let sel = (\<lambda>r. external_id r = externalID);
          rowsAffected = length (filter sel (vehicles db));
          db' = db\<lparr>vehicles :=
                  map (\<lambda>r. if sel r
                            then r\<lparr>status := VehicleStatus_String st, updated_at := Some now\<rparr>
                            else r) (vehicles db)\<rparr>
      in if rowsAffected = 0 then (db, Inl ErrVehicleNotFound)
         else (db', store_GetVehicleByID db' externalID))"

definition store_DeleteVehicle :: "database \<Rightarrow> Time \<Rightarrow> uuid \<Rightarrow> database \<times> error option" where
  "store_DeleteVehicle db now externalID =
     (let sel = (\<lambda>r. external_id r = externalID \<and> status r \<noteq> ''RETIRED'');
          rowsAffected = length (filter sel (vehicles db));
          db' = db\<lparr>vehicles :=
                  map (\<lambda>r. if sel r then r\<lparr>status := ''RETIRED'', updated_at := Some now\<rparr>
                            else r) (vehicles db)\<rparr>
      in if rowsAffected = 0 then (db, Some ErrVehicleNotFound)
         else (db', None))"

section \<open>The vehicle service\<close>

text \<open>
  \<^verbatim>\<open>status.Errorf(code, ...)\<close>: a gRPC error is modelled by its code; the message is not
  modelled.
\<close>

datatype codes = InvalidArgument | NotFound | AlreadyExists | FailedPrecondition | Internal

text \<open>\<^verbatim>\<open>genproto.ListVehiclesRequest\<close> and \<^verbatim>\<open>genproto.ListVehiclesResponse\<close>.\<close>

record ListVehiclesRequest =
  req_PageSize :: int
  req_PageToken :: string
  req_StatusFilter :: "VehicleStatus option"
  req_VehicleTypeFilter :: "string option"
  req_MakeFilter :: "string option"

record ListVehiclesResponse =
  Vehicles :: "Vehicle list"
  NextPageToken :: string
  TotalCount :: int

definition service_ListVehicles :: "database \<Rightarrow> ListVehiclesRequest
    \<Rightarrow> codes + ListVehiclesResponse" where
  "service_ListVehicles db req =
     (let pageSize0 = (if req_PageSize req \<le> 0 then 50 else req_PageSize req);
          pageSize = (if pageSize0 > 100 then 100 else pageSize0);
          params = \<lparr>PageSize = pageSize,
                    PageToken = req_PageToken req,
                    StatusFilter = req_StatusFilter req,
                    VehicleTypeFilter =
                      (case req_VehicleTypeFilter req of
                         None \<Rightarrow> None
                       | Some s \<Rightarrow> if s \<noteq> [] then Some s else None),
                    MakeFilter =
                      (case req_MakeFilter req of
                         None \<Rightarrow> None
                       | Some s \<Rightarrow> if s \<noteq> [] then Some s else None)\<rparr>
      in case store_ListVehicles db params of
           Inl err \<Rightarrow> Inl Internal
         | Inr (vs, nextPageToken) \<Rightarrow>
             Inr \<lparr>Vehicles = vs, NextPageToken = nextPageToken,
                  TotalCount = int (length vs)\<rparr>)"

text \<open>
  \<^verbatim>\<open>DeleteVehicle\<close> of the service. \<^verbatim>\<open>uuid.FromString\<close> belongs to the
  \<^verbatim>\<open>gofrs/uuid\<close> package and is a parameter: it gives the sixteen bytes of a well-formed
  identifier and \<open>None\<close> for any other string. The result is the state after the call and
  the gRPC error, if any.
\<close>

definition service_DeleteVehicle :: "(string \<Rightarrow> uuid option) \<Rightarrow> database \<Rightarrow> Time \<Rightarrow> string
    \<Rightarrow> database \<times> codes option" where
  "service_DeleteVehicle FromString db now VehicleId =
     (if VehicleId = [] then (db, Some InvalidArgument)
      else case FromString VehicleId of
        None \<Rightarrow> (db, Some InvalidArgument)
      | Some vehicleID \<Rightarrow>
          (case store_GetVehicleByID db vehicleID of
             Inl err \<Rightarrow>
               (if errors_Is err ErrVehicleNotFound then (db, Some NotFound)
                else (db, Some Internal))
           | Inr existingVehicle \<Rightarrow>
               (if Status existingVehicle = VehicleStatus_ASSIGNED
                then (db, Some FailedPrecondition)
                else case store_DeleteVehicle db now vehicleID of
                  (db', Some err) \<Rightarrow>
                    (if errors_Is err ErrVehicleNotFound then (db', Some NotFound)
                     else (db', Some Internal))
                | (db', None) \<Rightarrow> (db', None))))"

text \<open>
  \<^verbatim>\<open>UpdateVehicleStatus\<close> of the service, with \<^verbatim>\<open>validator.ValidateVehicleStatus\<close>
  (the status must not be \<^verbatim>\<open>STATUS_UNSPECIFIED\<close>) written in place.
\<close>

definition service_UpdateVehicleStatus :: "(string \<Rightarrow> uuid option) \<Rightarrow> database \<Rightarrow> Time
    \<Rightarrow> string \<Rightarrow> VehicleStatus \<Rightarrow> database \<times> (codes + Vehicle)" where
  "service_UpdateVehicleStatus FromString db now VehicleId st =
     (if VehicleId = [] then (db, Inl InvalidArgument)
      else if st = VehicleStatus_STATUS_UNSPECIFIED then (db, Inl InvalidArgument)
      else case FromString VehicleId of
        None \<Rightarrow> (db, Inl InvalidArgument)
      | Some vehicleID \<Rightarrow>
          (case store_GetVehicleByID db vehicleID of
             Inl err \<Rightarrow>
               (if errors_Is err ErrVehicleNotFound then (db, Inl NotFound)
                else (db, Inl Internal))
           | Inr currentVehicle \<Rightarrow>
               (if \<not> IsValidStatusTransition (Status currentVehicle) st
                then (db, Inl InvalidArgument)
                else case store_UpdateVehicleStatus db now vehicleID st of
                  (db', Inl err) \<Rightarrow>
                    (if errors_Is err ErrVehicleNotFound then (db', Inl NotFound)
                     else (db', Inl Internal))
                | (db', Inr updatedVehicle) \<Rightarrow> (db', Inr updatedVehicle))))"

text \<open>
  \<^verbatim>\<open>genproto.VehicleInput\<close>, the vehicle of a create request.
\<close>

record VehicleInput =
  in_VehicleTypeId :: string
  in_LicensePlate :: string
  in_Make :: string
  in_Model :: string
  in_Year :: int
  in_Color :: string
  in_SeatingCapacity :: int
  in_FuelType :: FuelType
  in_EngineNumber :: string
  in_ChassisNumber :: string
  in_RegistrationDate :: "Time option"
  in_InsuranceExpiry :: "Time option"

text \<open>
  What \<^verbatim>\<open>CreateVehicle\<close> of the service takes from outside the repository's own
  logic, as parameters: \<^verbatim>\<open>validator.ValidateCreateVehicleRequest\<close>, which normalizes
  the request's vehicle in place and then accepts or rejects it (regular expressions,
  Unicode classes and the wall clock decide; the specification leaves them to an external
  collaborator), given as the function from the vehicle to the rejection or the
  normalized vehicle; the node identifier and the next identifier of the snowflake
  generator; the random UUID; and the time of the insert.
\<close>

record create_env =
  ValidateCreateVehicleRequest :: "VehicleInput \<Rightarrow> string + VehicleInput"
  GetSnowflakeNodeID :: "string + nat"
  generator_Next :: nat
  NewV4 :: "string + uuid"
  time_Now :: Time

text \<open>\<^verbatim>\<open>AsTime().Format("2006-01-02")\<close>.\<close>

definition Format_date :: "Time \<Rightarrow> string" where
  "Format_date t =
     appendInt (t_year t) 4 @ ''-'' @ appendInt (int (t_month t)) 2 @ ''-''
       @ appendInt (int (t_day t)) 2"

definition service_CreateVehicle :: "create_env \<Rightarrow> database \<Rightarrow> VehicleInput
    \<Rightarrow> database \<times> (codes + Vehicle)" where
  "service_CreateVehicle env db req_Vehicle =
     (case ValidateCreateVehicleRequest env req_Vehicle of
        Inl err \<Rightarrow> (db, Inl InvalidArgument)
      | Inr vehicle \<Rightarrow>
     (case store_GetVehicleTypeByID db (in_VehicleTypeId vehicle) of
        Inl err \<Rightarrow>
          (if errors_Is err ErrVehicleTypeNotFound then (db, Inl InvalidArgument)
           else (db, Inl Internal))
      | Inr _ \<Rightarrow>
     (case store_GetVehicleByLicensePlate db (in_LicensePlate vehicle) of
        Inl err \<Rightarrow>
          (if \<not> errors_Is err ErrVehicleNotFound then (db, Inl Internal)
           else
     (case GetSnowflakeNodeID env of
        Inl err \<Rightarrow> (db, Inl Internal)
      | Inr nodeID \<Rightarrow>
     (case NewV4 env of
        Inl err \<Rightarrow> (db, Inl Internal)
      | Inr externalID \<Rightarrow>
          (let vehicleData =
                 \<lparr>data_VehicleTypeID = in_VehicleTypeId vehicle,
                  data_LicensePlate = in_LicensePlate vehicle,
                  data_Make = in_Make vehicle,
                  data_Model = in_Model vehicle,
                  data_Year = in_Year vehicle,
                  data_Color = in_Color vehicle,
                  data_SeatingCapacity = in_SeatingCapacity vehicle,
                  data_FuelType = in_FuelType vehicle,
                  data_EngineNumber =
                    (if in_EngineNumber vehicle \<noteq> [] then Some (in_EngineNumber vehicle)
                     else None),
                  data_ChassisNumber =
                    (if in_ChassisNumber vehicle \<noteq> [] then Some (in_ChassisNumber vehicle)
                     else None),
                  data_RegistrationDate = map_option Format_date (in_RegistrationDate vehicle),
                  data_InsuranceExpiry = map_option Format_date (in_InsuranceExpiry vehicle)\<rparr>
           in case store_CreateVehicle db (time_Now env) (generator_Next env) externalID
                     vehicleData of
                (db', Some err) \<Rightarrow>
                  (if errors_Is err ErrDuplicateEntry then (db', Inl AlreadyExists)
                   else (db', Inl Internal))
              | (db', None) \<Rightarrow>
                  (case store_GetVehicleByID db' externalID of
                     Inl err \<Rightarrow> (db', Inl Internal)
                   | Inr createdVehicle \<Rightarrow> (db', Inr createdVehicle))))))
      | Inr existing \<Rightarrow> (db, Inl AlreadyExists))))"

section \<open>Example data\<close>

text \<open>
  A small state used where a statement is checked on concrete input: one vehicle type and
  vehicles created one second apart, the vehicle numbered \<open>n\<close> at second \<open>n\<close> of
  2025-01-01T00:00 UTC, all \<^verbatim>\<open>ACTIVE\<close>.
\<close>

definition t_at :: "nat \<Rightarrow> Time" where
  "t_at n = \<lparr>t_year = 2025, t_month = 1, t_day = 1, t_hour = 0, t_minute = 0, t_second = n,
            t_nsec = 0, t_offset = 0\<rparr>"

definition cab :: vehicle_type_row where
  "cab = \<lparr>vt_id = ''1'', vt_name = ''cab'',
          vt_description = ''Taxi cabs for individual passenger transport'',
          vt_created_at = t_at 0\<rparr>"

definition example_row :: "nat \<Rightarrow> vehicle_row" where
  "example_row n =
     \<lparr>internal_id = n,
      external_id = ''000000000000000'' @ [digit n],
      vehicle_type_id = ''1'',
      license_plate = ''KAA 00'' @ [digit n] @ ''A'',
      make' = ''Toyota'',
      model = ''Hiace'',
      year = 2019,
      color = ''White'',
      seating_capacity = 14,
      fuel_type = ''DIESEL'',
      engine_number = None,
      chassis_number = None,
      registration_date = None,
      insurance_expiry = None,
      status = ''ACTIVE'',
      created_at = t_at n,
      updated_at = Some (t_at n)\<rparr>"

text \<open>The \<^verbatim>\<open>genproto.Vehicle\<close> the store reads from \<open>example_row n\<close>.\<close>

definition example_vehicle :: "nat \<Rightarrow> Vehicle" where
  "example_vehicle n =
     \<lparr>Id' = LOWER_HEX (''000000000000000'' @ [digit n]),
      VehicleTypeId = ''1'',
      VehicleTypeName = ''cab'',
      LicensePlate = ''KAA 00'' @ [digit n] @ ''A'',
      Make = ''Toyota'',
      Model = ''Hiace'',
      Year = 2019,
      Color = ''White'',
      SeatingCapacity = 14,
      FuelType = FuelType_DIESEL,
      EngineNumber = [],
      ChassisNumber = [],
      RegistrationDate = None,
      InsuranceExpiry = None,
      Status = VehicleStatus_ACTIVE,
      CreatedAt = t_at n,
      UpdatedAt = t_at n\<rparr>"

definition three_vehicles :: database where
  "three_vehicles =
     \<lparr>vehicles = [example_row 1, example_row 2, example_row 3], vehicle_types = [cab]\<rparr>"

text \<open>
  A state whose only vehicle is \<^verbatim>\<open>ASSIGNED\<close>, and a stand-in for
  \<^verbatim>\<open>uuid.FromString\<close> that knows the identifier of example vehicle 2 in the form the
  store prints it.
\<close>

definition assigned_vehicle :: database where
  "assigned_vehicle =
     \<lparr>vehicles = [(example_row 2)\<lparr>status := ''ASSIGNED''\<rparr>], vehicle_types = [cab]\<rparr>"

definition example_FromString :: "string \<Rightarrow> uuid option" where
  "example_FromString s =
     (if s = ''30303030303030303030303030303032'' then Some ''0000000000000002'' else None)"

section \<open>Properties of the transition guard\<close>

lemma vehicle_transition_edges:
  "IsValidStatusTransition from to \<longleftrightarrow> (from, to) \<in> vehicle_edges"
  by (cases "from"; cases to; simp add: IsValidStatusTransition_def vehicle_edges_def)

lemma driver_transition_edges:
  "IsValidDriverStatusTransition from to \<longleftrightarrow> (from, to) \<in> driver_edges"
  by (cases "from"; cases to; simp add: IsValidDriverStatusTransition_def driver_edges_def)

text \<open>
  Claim C4. Both transition predicates are irreflexive, hold on exactly the declared
  edges (eight for drivers, seven for vehicles) and on no other ordered pair, and
  \<open>RETIRED\<close> has no outgoing edge.
\<close>

theorem C4_transition_completeness:
  "(IsValidDriverStatusTransition d d' \<longleftrightarrow> (d, d') \<in> driver_edges)
   \<and> (IsValidStatusTransition v v' \<longleftrightarrow> (v, v') \<in> vehicle_edges)
   \<and> \<not> IsValidDriverStatusTransition d d
   \<and> \<not> IsValidStatusTransition v v
   \<and> \<not> IsValidStatusTransition VehicleStatus_RETIRED v'"
proof -
  have "\<not> IsValidDriverStatusTransition d d"
    by (cases d; simp add: IsValidDriverStatusTransition_def)
  moreover have "\<not> IsValidStatusTransition v v"
    by (cases v; simp add: IsValidStatusTransition_def)
  moreover have "\<not> IsValidStatusTransition VehicleStatus_RETIRED v'"
    by (simp add: IsValidStatusTransition_def)
  ultimately show ?thesis
    using vehicle_transition_edges driver_transition_edges by blast
qed

section \<open>The base64 codec inverts itself\<close>

lemma index_of_nth: "distinct xs \<Longrightarrow> i < length xs \<Longrightarrow> index_of xs (xs ! i) = Some i"
proof (induction xs arbitrary: i)
  case Nil then show ?case by simp
next
  case (Cons x xs)
  show ?case
  proof (cases i)
    case 0 then show ?thesis by simp
  next
    case (Suc j)
    with Cons.prems have "xs ! j \<in> set xs" "x \<notin> set xs" by auto
    then have "x \<noteq> xs ! j" by auto
    with Cons Suc show ?thesis by simp
  qed
qed

lemma length_encodeURL: "length encodeURL = 64"
  by (simp add: encodeURL_def)

lemma distinct_encodeURL: "distinct encodeURL"
  by (simp add: encodeURL_def)

lemma decodeMap_enc: "i < 64 \<Longrightarrow> decodeMap (enc i) = Some i"
  unfolding decodeMap_def enc_def
  by (rule index_of_nth[OF distinct_encodeURL]) (simp add: length_encodeURL)

lemma enc_in_alphabet: "i < 64 \<Longrightarrow> enc i \<in> set encodeURL"
  unfolding enc_def by (rule nth_mem) (simp add: length_encodeURL)

lemma newline_not_in_alphabet: "CHR 0x0A \<notin> set encodeURL" "CHR 0x0D \<notin> set encodeURL"
    by (simp_all add: encodeURL_def)

lemma enc_not_newline: "i < 64 \<Longrightarrow> enc i \<noteq> CHR 0x0A \<and> enc i \<noteq> CHR 0x0D"
  using enc_in_alphabet[of i] newline_not_in_alphabet by metis

lemma decodeMap_pad: "decodeMap CHR ''='' = None"
  by (simp add: decodeMap_def encodeURL_def)


lemma enc_mod_not_newline [simp]:
  "enc (x mod 64) \<noteq> CHR 0x0A" "enc (x mod 64) \<noteq> CHR 0x0D"
  using enc_not_newline[of "x mod 64"] by simp_all

lemma EncodeToString_no_newline:
  "c \<in> set (EncodeToString s) \<Longrightarrow> c \<noteq> CHR 0x0A \<and> c \<noteq> CHR 0x0D"
proof (induction s rule: EncodeToString.induct)
  case 1
  then show ?case by simp
next
  case (2 b0)
  then show ?case by (auto simp only: EncodeToString.simps Let_def set_simps enc_mod_not_newline)
next
  case (3 b0 b1)
  then show ?case by (auto simp only: EncodeToString.simps Let_def set_simps enc_mod_not_newline)
next
  case (4 b0 b1 b2 rest)
  then show ?case
    by (auto simp only: EncodeToString.simps Let_def set_simps set_append append.simps
          Un_iff enc_mod_not_newline)
qed

lemma skip_newlines_EncodeToString: "skip_newlines (EncodeToString s) = EncodeToString s"
  unfolding skip_newlines_def
  by (rule filter_True) (use EncodeToString_no_newline in blast)


lemma recombine24:
  fixes v :: nat
  assumes "v < 16777216"
  shows "v div 262144 mod 64 * 262144 + v div 4096 mod 64 * 4096 + v div 64 mod 64 * 64 + v mod 64 = v"
proof -
  have "v mod 16777216 = 262144 * (v div 262144 mod 64) + v mod 262144"
    using mod_mult2_eq[of v 262144 64] by simp
  moreover have "v mod 262144 = 4096 * (v div 4096 mod 64) + v mod 4096"
    using mod_mult2_eq[of v 4096 64] by simp
  moreover have "v mod 4096 = 64 * (v div 64 mod 64) + v mod 64"
    using mod_mult2_eq[of v 64 64] by simp
  ultimately show ?thesis using assms by simp
qed

lemma bytes3:
  fixes a b c :: nat
  assumes "a < 256" "b < 256" "c < 256"
  shows "(a * 65536 + b * 256 + c) div 65536 = a"
    and "(a * 65536 + b * 256 + c) div 256 mod 256 = b"
    and "(a * 65536 + b * 256 + c) mod 256 = c"
    and "a * 65536 + b * 256 + c < 16777216"
proof -
  have e: "a * 65536 + b * 256 + c = c + 256 * (b + 256 * a)" by simp
  have d: "(c + 256 * (b + 256 * a)) div 256 = b + 256 * a"
    using assms(3) by (simp only: div_mult_self2 div_less)
  have m: "(b + 256 * a) mod 256 = b" using assms(2) by simp
  show "(a * 65536 + b * 256 + c) div 65536 = a" using assms by simp
  show "(a * 65536 + b * 256 + c) div 256 mod 256 = b"
    using d m e by (simp only:)
  have "(c + 256 * (b + 256 * a)) mod 256 = c"
    using assms(3) by (simp only: mod_mult_self2 mod_less)
  then show "(a * 65536 + b * 256 + c) mod 256 = c" using e by (simp only:)
  show "a * 65536 + b * 256 + c < 16777216" using assms by simp
qed

text \<open>One full quantum: the four characters of three bytes decode to the bytes.\<close>

lemma decodeQuantum_full:
  fixes b0 b1 b2 :: char
  defines "v \<equiv> (of_char b0 :: nat) * 65536 + of_char b1 * 256 + of_char b2"
  assumes r: "decodeQuantum r = Some bs"
  shows "decodeQuantum (enc (v div 262144 mod 64) # enc (v div 4096 mod 64)
            # enc (v div 64 mod 64) # enc (v mod 64) # r) = Some (b0 # b1 # b2 # bs)"
proof -
  have lt: "(of_char b0 :: nat) < 256" "(of_char b1 :: nat) < 256" "(of_char b2 :: nat) < 256"
    by simp_all
  have v: "v < 16777216" unfolding v_def by (rule bytes3(4)[OF lt])
  have rc: "v div 262144 mod 64 * 262144 + v div 4096 mod 64 * 4096 + v div 64 mod 64 * 64
              + v mod 64 = v"
    by (rule recombine24[OF v])
  have c0: "char_of (v div 65536) = b0" unfolding v_def bytes3(1)[OF lt] by simp
  have c1: "char_of (v div 256 mod 256) = b1" unfolding v_def bytes3(2)[OF lt] by simp
  have c2: "char_of (v mod 256) = b2" unfolding v_def bytes3(3)[OF lt] by simp
  show ?thesis
    by (simp only: decodeQuantum.simps decodeMap_enc mod_less_divisor zero_less_numeral
          prod.case option.case Let_def rc r option.map c0 c1 c2 append.simps)
qed


lemma decodeQuantum_two:
  fixes b0 b1 :: char
  defines "v \<equiv> (of_char b0 :: nat) * 65536 + of_char b1 * 256"
  shows "decodeQuantum [enc (v div 262144 mod 64), enc (v div 4096 mod 64),
            enc (v div 64 mod 64), CHR ''=''] = Some [b0, b1]"
proof -
  have lt: "(of_char b0 :: nat) < 256" "(of_char b1 :: nat) < 256" "(0 :: nat) < 256"
    by simp_all
  have v0: "v = of_char b0 * 65536 + of_char b1 * 256 + 0" unfolding v_def by simp
  have v: "v < 16777216" unfolding v0 by (rule bytes3(4)[OF lt])
  have m: "v mod 64 = 0" unfolding v_def by simp
  have rc: "v div 262144 mod 64 * 262144 + v div 4096 mod 64 * 4096 + v div 64 mod 64 * 64 = v"
    using recombine24[OF v] by (simp only: m add_0_right)
  have c0: "char_of (v div 65536) = b0" unfolding v0 bytes3(1)[OF lt] by simp
  have c1: "char_of (v div 256 mod 256) = b1" unfolding v0 bytes3(2)[OF lt] by simp
  show ?thesis
    by (simp only: decodeQuantum.simps decodeMap_enc mod_less_divisor zero_less_numeral
          prod.case option.case Let_def rc decodeMap_pad c0 c1 simp_thms if_True)
qed

lemma decodeQuantum_one:
  fixes b0 :: char
  defines "v \<equiv> (of_char b0 :: nat) * 65536"
  shows "decodeQuantum [enc (v div 262144 mod 64), enc (v div 4096 mod 64),
            CHR ''='', CHR ''=''] = Some [b0]"
proof -
  have lt: "(of_char b0 :: nat) < 256" by simp
  have v: "v < 16777216" unfolding v_def using lt by simp
  have m: "v mod 64 = 0" "v div 64 mod 64 = 0" unfolding v_def by simp_all
  have rc: "v div 262144 mod 64 * 262144 + v div 4096 mod 64 * 4096 = v"
    using recombine24[OF v] by (simp only: m mult_zero_left add_0_right)
  have c0: "char_of (v div 65536) = b0" unfolding v_def by simp
  show ?thesis
    by (simp only: decodeQuantum.simps decodeMap_enc mod_less_divisor zero_less_numeral
          prod.case option.case Let_def rc decodeMap_pad c0 simp_thms if_True)
qed

lemma decodeQuantum_EncodeToString: "decodeQuantum (EncodeToString s) = Some s"
proof (induction s rule: EncodeToString.induct)
  case 1
  show ?case by simp
next
  case (2 b0)
  show ?case by (simp only: EncodeToString.simps Let_def decodeQuantum_one)
next
  case (3 b0 b1)
  show ?case by (simp only: EncodeToString.simps Let_def decodeQuantum_two)
next
  case (4 b0 b1 b2 rest)
  show ?case
    by (simp only: EncodeToString.simps Let_def append.simps decodeQuantum_full[OF 4])
qed

theorem DecodeString_EncodeToString: "DecodeString (EncodeToString s) = Inr s"
  by (simp add: DecodeString_def skip_newlines_EncodeToString decodeQuantum_EncodeToString)

section \<open>Reading back the RFC 3339 text of a time\<close>

lemma of_char_digit: "d < 10 \<Longrightarrow> (of_char (digit d) :: nat) = 48 + d"
  by (simp add: digit_def)

lemma digitVal_digit [simp]: "d < 10 \<Longrightarrow> digitVal (digit d) = d"
  by (simp add: digitVal_def of_char_digit)

lemma isDigit_0_digit [simp]: "d < 10 \<Longrightarrow> isDigit (digit d # s) 0"
  by (simp add: isDigit_def of_char_digit)

lemma isDigit_Suc [simp]: "isDigit (c # s) (Suc i) = isDigit s i"
  by (simp add: isDigit_def)

lemma isDigit_Nil [simp]: "\<not> isDigit [] i"
  by (simp add: isDigit_def)

lemma appendUint_2: "u < 100 \<Longrightarrow> appendUint u 2 = [digit (u div 10), digit (u mod 10)]"
  by (simp add: appendUint_def)

lemma appendInt_2: "n < 100 \<Longrightarrow> appendInt (int n) 2 = [digit (n div 10), digit (n mod 10)]"
  by (simp add: appendInt_def appendUint_2)

lemma appendInt_4:
  assumes "0 \<le> y" "y \<le> 9999"
  shows "appendInt y 4 = [digit (nat y div 1000), digit (nat y div 100 mod 10),
                    digit (nat y div 10 mod 10), digit (nat y mod 10)]"
proof -
  have "nat y < 10000" using assms by linarith
  then show ?thesis using assms by (simp add: appendInt_def appendUint_def)
qed

lemma getnum_two_digits:
  assumes "a < 10" "b < 10"
  shows "getnum (digit a # digit b # rest) fixed = Some (a * 10 + b, rest)"
  using assms by (simp add: getnum_def)


lemma getnum_appendInt_2:
  assumes "n < 100"
  shows "getnum (appendInt (int n) 2 @ rest) fixed = Some (n, rest)"
proof -
  have "n div 10 < 10" "n mod 10 < 10" using assms by simp_all
  then have "getnum (digit (n div 10) # digit (n mod 10) # rest) fixed
               = Some (n div 10 * 10 + n mod 10, rest)"
    by (rule getnum_two_digits)
  then show ?thesis using assms by (simp add: appendInt_2)
qed

lemma decimal4:
  fixes n :: nat
  shows "((n div 1000 mod 10 * 10 + n div 100 mod 10) * 10 + n div 10 mod 10) * 10 + n mod 10
           = n mod 10000"
proof -
  have a: "n mod 10000 = 1000 * (n div 1000 mod 10) + n mod 1000"
    using mod_mult2_eq[of n 1000 10] by simp
  have b: "n mod 1000 = 100 * (n div 100 mod 10) + n mod 100"
    using mod_mult2_eq[of n 100 10] by simp
  have c: "n mod 100 = 10 * (n div 10 mod 10) + n mod 10"
    using mod_mult2_eq[of n 10 10] by simp
  show ?thesis unfolding a b c by simp
qed

lemma parse_year_appendInt:
  assumes "0 \<le> y" "y \<le> 9999"
  shows "parse_year (appendInt y 4 @ rest) = Some (nat y, rest)"
proof -
  define n where "n = nat y"
  have n: "n < 10000" unfolding n_def using assms by linarith
  have d: "n div 1000 < 10" "n div 100 mod 10 < 10" "n div 10 mod 10 < 10" "n mod 10 < 10"
    using n by simp_all
  have m: "n div 1000 mod 10 = n div 1000" using d(1) by simp
  have v: "((n div 1000 * 10 + n div 100 mod 10) * 10 + n div 10 mod 10) * 10 + n mod 10 = n"
    using decimal4[of n] n unfolding m by simp
  have "parse_year (digit (n div 1000) # digit (n div 100 mod 10) # digit (n div 10 mod 10)
                      # digit (n mod 10) # rest) = Some (n, rest)"
    using d v by (simp add: parse_year_def numeral_2_eq_2 numeral_3_eq_3)
  then show ?thesis using assms by (simp add: appendInt_4 n_def)
qed

lemma skip_char_Cons [simp]: "skip_char c (c # rest) = Some rest"
  by (simp add: skip_char_def)

lemma parse_date_Format:
  assumes "0 \<le> y" "y \<le> 9999" "1 \<le> m" "m \<le> 12" "d < 100"
  shows "parse_date (appendInt y 4 @ ''-'' @ appendInt (int m) 2 @ ''-''
            @ appendInt (int d) 2 @ rest) = Some ((nat y, m, d), rest)"
proof -
  have m: "m < 100" using assms by simp
  show ?thesis
    unfolding parse_date_def
    using assms
    by (simp add: parse_year_appendInt getnum_appendInt_2[OF m] getnum_appendInt_2[OF \<open>d < 100\<close>])
qed

lemma parse_clock_Format:
  assumes "h < 24" "mi < 60" "s < 60"
  shows "parse_clock (appendInt (int h) 2 @ '':'' @ appendInt (int mi) 2 @ '':''
            @ appendInt (int s) 2 @ rest) = Some ((h, mi, s), rest)"
proof -
  have l: "h < 100" "mi < 100" "s < 100" using assms by simp_all
  show ?thesis
    unfolding parse_clock_def
    using assms
    by (simp add: getnum_appendInt_2[OF l(1)] getnum_appendInt_2[OF l(2)]
          getnum_appendInt_2[OF l(3)])
qed


lemma atoi_loop_snoc: "atoi_loop x (ds @ [c]) = atoi_loop x ds * 10 + digitVal c"
  by (induction ds arbitrary: x) simp_all

lemma digitVal_zero [simp]: "digitVal CHR ''0'' = 0"
  by (simp add: digitVal_def)

lemma atoi_loop_zeros: "atoi_loop x (ds @ replicate k CHR ''0'') = atoi_loop x ds * 10 ^ k"
proof (induction k)
  case 0
  show ?case by simp
next
  case (Suc k)
  have "ds @ replicate (Suc k) CHR ''0'' = (ds @ replicate k CHR ''0'') @ [CHR ''0'']"
    by (simp add: replicate_append_same)
  then show ?case using Suc by (simp only: atoi_loop_snoc) simp
qed

lemma atoi_loop_digits: "atoi_loop 0 (digits w n) = n mod 10 ^ w"
proof (induction w arbitrary: n)
  case 0
  show ?case by simp
next
  case (Suc w)
  have "atoi_loop 0 (digits (Suc w) n) = (n div 10) mod 10 ^ w * 10 + n mod 10"
    using Suc[of "n div 10"] by (simp add: atoi_loop_snoc)
  also have "\<dots> = n mod 10 ^ Suc w"
    using mod_mult2_eq[of n 10 "10 ^ w"] by simp
  finally show ?case .
qed

lemma length_digits [simp]: "length (digits w n) = w"
  by (induction w arbitrary: n) simp_all

lemma digits_are_digits: "c \<in> set (digits w n) \<Longrightarrow> isDigit [c] 0"
proof (induction w arbitrary: n)
  case 0
  then show ?case by simp
next
  case (Suc w)
  have "isDigit [digit (n mod 10)] 0" by simp
  with Suc show ?case by auto
qed

lemma ndigits_le: "x < 10 ^ w \<Longrightarrow> ndigits f x \<le> w"
proof (induction f arbitrary: x w)
  case 0
  show ?case by simp
next
  case (Suc f)
  show ?case
  proof (cases "x = 0")
    case True
    then show ?thesis by simp
  next
    case False
    with Suc.prems obtain w' where w: "w = Suc w'" by (cases w) auto
    with Suc.prems have "x div 10 < 10 ^ w'" by simp
    then have "ndigits f (x div 10) \<le> w'" by (rule Suc.IH)
    with False w show ?thesis by simp
  qed
qed

lemma appendUint_9: "n < 1000000000 \<Longrightarrow> appendUint n 9 = digits 9 n"
proof -
  assume "n < 1000000000"
  then have "n < 10 ^ 9" by simp
  then have "ndigits (Suc n) n \<le> 9" by (rule ndigits_le)
  then show ?thesis by (simp add: appendUint_def max_def)
qed

text \<open>Removing trailing zeros splits a string into the kept part and a run of zeros.\<close>

lemma trim_decomp:
  "\<exists>k. xs = rev (dropWhile (\<lambda>c. c = z) (rev xs)) @ replicate k z"
proof -
  let ?t = "takeWhile (\<lambda>c. c = z) (rev xs)"
  have "rev xs = ?t @ dropWhile (\<lambda>c. c = z) (rev xs)" by simp
  then have "xs = rev (dropWhile (\<lambda>c. c = z) (rev xs)) @ rev ?t"
    by (metis rev_append rev_rev_ident)
  moreover have "\<forall>c \<in> set (rev ?t). c = z"
    using set_takeWhileD by fastforce
  then have "rev ?t = replicate (length (rev ?t)) z"
    by (intro replicate_eqI) auto
  ultimately show ?thesis by metis
qed

lemma period_not_digit [simp]: "\<not> isDigit [CHR ''.''] 0"
  by (simp add: isDigit_def)

lemma digits_not_all_zero:
  assumes "0 < ns" "ns < 1000000000"
  shows "digits 9 ns \<noteq> replicate k CHR ''0''"
proof
  assume k: "digits 9 ns = replicate k CHR ''0''"
  have "atoi_loop 0 ([] @ replicate k CHR ''0'') = 0"
    by (simp only: atoi_loop_zeros) simp
  then have "atoi_loop 0 (digits 9 ns) = 0" unfolding k by simp
  moreover have "atoi_loop 0 (digits 9 ns) = ns" using assms(2) by (simp add: atoi_loop_digits)
  ultimately show False using assms(1) by simp
qed

lemma appendNano_shape:
  assumes "0 < ns" "ns < 1000000000"
  obtains ds k where "appendNano ns = CHR ''.'' # ds" "ds \<noteq> []"
    "\<forall>c \<in> set ds. isDigit [c] 0" "digits 9 ns = ds @ replicate k CHR ''0''"
proof -
  let ?P = "\<lambda>c. c = CHR ''0''"
  define D where "D = digits 9 ns"
  define ds where "ds = rev (dropWhile ?P (rev D))"
  obtain k where k: "D = ds @ replicate k CHR ''0''"
    unfolding ds_def using trim_decomp[of D "CHR ''0''"] by blast
  have ne: "ds \<noteq> []"
  proof
    assume "ds = []"
    with k have "D = replicate k CHR ''0''" by (simp only: append_Nil)
    then show False using digits_not_all_zero[OF assms] unfolding D_def by blast
  qed
  have dig: "\<forall>c \<in> set ds. isDigit [c] 0"
  proof
    fix c assume "c \<in> set ds"
    then have "c \<in> set D" unfolding k by simp
    then show "isDigit [c] 0" unfolding D_def by (rule digits_are_digits)
  qed
  have dne: "dropWhile ?P (rev D) \<noteq> []" using ne unfolding ds_def by simp
  then obtain x where x: "x \<in> set (rev D)" "\<not> ?P x"
    unfolding dropWhile_eq_Nil_conv by blast
  have "dropWhile ?P (rev (CHR ''.'' # D)) = dropWhile ?P (rev D) @ [CHR ''.'']"
    using dropWhile_append1[of x "rev D" ?P "[CHR ''.'']"] x by simp
  then have b': "rev (dropWhile ?P (rev (CHR ''.'' # D))) = CHR ''.'' # ds"
    unfolding ds_def by simp
  have ll: "last (CHR ''.'' # ds) = last ds" using ne by simp
  have ld: "isDigit [last ds] 0" using dig ne by simp
  have l: "last (CHR ''.'' # ds) \<noteq> CHR ''.''"
  proof
    assume "last (CHR ''.'' # ds) = CHR ''.''"
    then have "last ds = CHR ''.''" using ll by simp
    then show False using ld by simp
  qed
  have nz: "ns \<noteq> 0" using assms(1) by simp
  have "appendNano ns = CHR ''.'' # ds"
    unfolding appendNano_def appendUint_9[OF assms(2)] Let_def D_def[symmetric] b'
    using l nz by (simp only: if_False if_True simp_thms list.simps)
  then show ?thesis using that ne dig k unfolding D_def by blast
qed


lemma parse_fraction_appendNano:
  assumes ns: "ns < 1000000000"
    and c: "\<not> isDigit [c] 0" "\<not> commaOrPeriod c"
  shows "parse_fraction (appendNano ns @ c # z) = (ns, c # z)"
proof (cases "ns = 0")
  case True
  then show ?thesis using c by (simp add: appendNano_def parse_fraction_def)
next
  case False
  then have pos: "0 < ns" by simp
  from appendNano_shape[OF pos ns] obtain ds k where
    sh: "appendNano ns = CHR ''.'' # ds" and ne: "ds \<noteq> []"
    and dig: "\<forall>c \<in> set ds. isDigit [c] 0"
    and k: "digits 9 ns = ds @ replicate k CHR ''0''" by blast
  have len: "length ds + k = 9"
    using arg_cong[OF k, of length] by simp
  have tw: "takeWhile (\<lambda>c. isDigit [c] 0) (ds @ c # z) = ds"
    using dig c(1) by (simp add: takeWhile_tail)
  have hd: "isDigit (ds @ c # z) 0"
  proof -
    obtain d ds' where d: "ds = d # ds'" using ne by (cases ds) auto
    then have "isDigit [d] 0" using dig by simp
    then show ?thesis unfolding d by (simp add: isDigit_def)
  qed
  have val: "atoi_loop 0 ds * 10 ^ k = ns"
  proof -
    have "atoi_loop 0 (digits 9 ns) = ns" using ns by (simp add: atoi_loop_digits)
    then show ?thesis unfolding k atoi_loop_zeros .
  qed
  have k': "9 - length ds = k" using len by simp
  have n10: "\<not> 9 < length ds" using len by simp
  have "parse_fraction (CHR ''.'' # ds @ c # z) = (ns, c # z)"
    unfolding parse_fraction_def parseNanoseconds_def Let_def
    by (simp add: commaOrPeriod_def hd tw n10 k' val)
  then show ?thesis unfolding sh by simp
qed


lemma parse_zone_digits:
  assumes "h < 24" "m < 60" "sg = CHR ''+'' \<or> sg = CHR ''-''"
  shows "parse_zone (sg # appendInt (int h) 2 @ '':'' @ appendInt (int m) 2)
           = Some ((if sg = CHR ''+'' then 1 else - 1) * int ((h * 60 + m) * 60), [])"
proof -
  have l: "h < 100" "m < 100" using assms by simp_all
  have dh: "h div 10 < 10" "h mod 10 < 10" "m div 10 < 10" "m mod 10 < 10"
    using l by simp_all
  have gh: "getnum [digit (h div 10), digit (h mod 10)] True = Some (h, [])"
    using getnum_two_digits[OF dh(1) dh(2), of "[]" True] by simp
  have gm: "getnum [digit (m div 10), digit (m mod 10)] True = Some (m, [])"
    using getnum_two_digits[OF dh(3) dh(4), of "[]" True] by simp
  show ?thesis
    unfolding parse_zone_def appendInt_2[OF l(1)] appendInt_2[OF l(2)]
    using assms gh gm by (auto simp add: numeral_3_eq_3)
qed

lemma parse_zone_appendZone:
  assumes "off mod 60 = 0" "- 86400 < off" "off < 86400"
  shows "parse_zone (appendZone off) = Some (off, [])"
proof -
  consider "off = 0" | "0 < off" | "off < 0" by linarith
  then show ?thesis
  proof cases
    case 1
    then show ?thesis by (simp add: appendZone_def parse_zone_def)
  next
    case 2
    define zn where "zn = nat (off div 60)"
    have z: "off = int zn * 60" unfolding zn_def using assms(1) 2 by auto
    have zn: "0 < zn" "zn < 1440" using 2 assms(3) unfolding z by auto
    have q: "quo off 60 = int zn" unfolding quo_def z by simp
    have hm: "zn div 60 < 24" "zn mod 60 < 60" using zn by auto
    have "appendZone off = CHR ''+'' # appendInt (int (zn div 60)) 2 @ '':''
             @ appendInt (int (zn mod 60)) 2"
      unfolding appendZone_def q Let_def using 2 zn
      by (simp add: zdiv_int zmod_int)
    then show ?thesis
      using parse_zone_digits[OF hm, of "CHR ''+''"] by (simp add: z)
  next
    case 3
    define zn where "zn = nat ((- off) div 60)"
    have "(- off) mod 60 = 0" using assms(1) by (simp add: zmod_zminus1_eq_if)
    then have z: "- off = int zn * 60" unfolding zn_def using 3 by auto
    then have z': "off = - (int zn * 60)" by linarith
    have zn: "0 < zn" "zn < 1440" using 3 assms(2) unfolding z' by auto
    have q: "quo off 60 = - int zn" unfolding quo_def z' using zn by simp
    have hm: "zn div 60 < 24" "zn mod 60 < 60" using zn by auto
    have "appendZone off = CHR ''-'' # appendInt (int (zn div 60)) 2 @ '':''
             @ appendInt (int (zn mod 60)) 2"
      unfolding appendZone_def q Let_def using 3 zn
      by (simp add: zdiv_int zmod_int)
    then show ?thesis
      using parse_zone_digits[OF hm, of "CHR ''-''"] by (simp add: z')
  qed
qed


lemma appendZone_head:
  obtains c z where "appendZone off = c # z" "\<not> isDigit [c] 0" "\<not> commaOrPeriod c"
proof (cases "off = 0")
  case True
  then have "appendZone off = CHR ''Z'' # []" by (simp add: appendZone_def)
  then show ?thesis using that by (simp add: isDigit_def commaOrPeriod_def)
next
  case False
  then obtain c z where cz: "appendZone off = c # z" "c = CHR ''-'' \<or> c = CHR ''+''"
    by (auto simp add: appendZone_def Let_def)
  then show ?thesis using that by (auto simp add: isDigit_def commaOrPeriod_def)
qed

lemma daysIn_le: "daysIn m y \<le> 31"
  by (simp add: daysIn_def)

theorem parse_RFC3339_Format:
  assumes "representable t"
  shows "parse_RFC3339 (Format_RFC3339Nano t) = Some t"
proof -
  from assms have y: "0 \<le> t_year t" "t_year t \<le> 9999"
    and m: "1 \<le> t_month t" "t_month t \<le> 12"
    and d: "1 \<le> t_day t" "t_day t \<le> daysIn (t_month t) (t_year t)"
    and c: "t_hour t < 24" "t_minute t < 60" "t_second t < 60"
    and n: "t_nsec t < 1000000000"
    and z: "t_offset t mod 60 = 0" "- 86400 < t_offset t" "t_offset t < 86400"
    by (simp_all add: representable_def)
  have d100: "t_day t < 100" using d(2) daysIn_le[of "t_month t" "t_year t"] by simp
  obtain zc zs where zone: "appendZone (t_offset t) = zc # zs"
    and zc: "\<not> isDigit [zc] 0" "\<not> commaOrPeriod zc"
    by (rule appendZone_head)
  define s11 where "s11 = appendNano (t_nsec t) @ appendZone (t_offset t)"
  define s6 where "s6 = appendInt (int (t_hour t)) 2 @ '':'' @ appendInt (int (t_minute t)) 2
                         @ '':'' @ appendInt (int (t_second t)) 2 @ s11"
  have f: "Format_RFC3339Nano t = appendInt (t_year t) 4 @ ''-'' @ appendInt (int (t_month t)) 2
             @ ''-'' @ appendInt (int (t_day t)) 2 @ (CHR ''T'' # s6)"
    by (simp add: Format_RFC3339Nano_def s6_def s11_def)
  have p1: "parse_date (Format_RFC3339Nano t)
              = Some ((nat (t_year t), t_month t, t_day t), CHR ''T'' # s6)"
    unfolding f by (rule parse_date_Format[OF y m d100])
  have p2: "parse_clock s6 = Some ((t_hour t, t_minute t, t_second t), s11)"
    unfolding s6_def by (rule parse_clock_Format[OF c])
  have p3: "parse_fraction s11 = (t_nsec t, appendZone (t_offset t))"
    unfolding s11_def zone by (rule parse_fraction_appendNano[OF n zc])
  have p4: "parse_zone (appendZone (t_offset t)) = Some (t_offset t, [])"
    by (rule parse_zone_appendZone[OF z])
  have dd: "\<not> (t_day t < 1 \<or> daysIn (t_month t) (int (nat (t_year t))) < t_day t)"
    using d y by simp
  have "parse_RFC3339 (Format_RFC3339Nano t)
          = Some \<lparr>t_year = int (nat (t_year t)), t_month = t_month t, t_day = t_day t,
                  t_hour = t_hour t, t_minute = t_minute t, t_second = t_second t,
                  t_nsec = t_nsec t, t_offset = t_offset t\<rparr>"
    unfolding parse_RFC3339_def p1 using p2 p3 p4 dd by simp
  then show ?thesis using y by simp
qed

lemma MarshalText_representable:
  assumes "representable t"
  shows "MarshalText t = Inr (Format_RFC3339Nano t)"
proof -
  from assms have y: "0 \<le> t_year t" "t_year t \<le> 9999"
    and z: "- 86400 < t_offset t" "t_offset t < 86400"
    by (simp_all add: representable_def)
  have "\<bar>quo (t_offset t) 60\<bar> < 1440" using z unfolding quo_def by auto
  then have "\<bar>quo (t_offset t) 60\<bar> div 60 < 24" by simp
  then show ?thesis using y by (simp add: MarshalText_def)
qed

section \<open>The page token round trip\<close>

text \<open>
  Claim C9. For every timestamp that has an RFC 3339 nanosecond text form, writing the
  page token (\<^verbatim>\<open>MarshalText\<close>, then base64url) succeeds, and reading that token back
  (base64url decoding, then \<^verbatim>\<open>UnmarshalText\<close>) yields the same timestamp.
\<close>

theorem C9_page_token_round_trip:
  assumes "representable t"
  shows "\<exists>token. encode_page_token t = Inr token \<and> decode_page_token token = Inr t"
  using assms
  by (simp add: encode_page_token_def decode_page_token_def MarshalText_representable
        DecodeString_EncodeToString UnmarshalText_def parse_RFC3339_Format)

theorem C9_page_token_round_trip_witness:
  "representable \<lparr>t_year = 2025, t_month = 9, t_day = 5, t_hour = 19, t_minute = 11,
      t_second = 45, t_nsec = 123456000, t_offset = 0\<rparr>
   \<and> (\<exists>token.
         encode_page_token \<lparr>t_year = 2025, t_month = 9, t_day = 5, t_hour = 19, t_minute = 11,
           t_second = 45, t_nsec = 123456000, t_offset = 0\<rparr> = Inr token
         \<and> decode_page_token token = Inr \<lparr>t_year = 2025, t_month = 9, t_day = 5, t_hour = 19,
              t_minute = 11, t_second = 45, t_nsec = 123456000, t_offset = 0\<rparr>)"
proof -
  have r: "representable \<lparr>t_year = 2025, t_month = 9, t_day = 5, t_hour = 19, t_minute = 11,
      t_second = 45, t_nsec = 123456000, t_offset = 0\<rparr>"
    by (simp add: representable_def daysIn_def)
  show ?thesis using r C9_page_token_round_trip[OF r] by blast
qed

section \<open>Invalid page tokens\<close>

lemma parse_page_token_bad:
  assumes "tok \<noteq> []" "decode_page_token tok = Inl e"
  shows "\<exists>err. parse_page_token tok = Inl err"
  using assms
  by (cases "DecodeString tok")
     (auto simp add: parse_page_token_def decode_page_token_def split: sum.splits)

lemma parse_page_token_good:
  assumes "decode_page_token tok = Inr t"
  shows "parse_page_token tok = (if tok = [] then Inr zeroTime else Inr t)"
  using assms
  by (cases "DecodeString tok")
     (auto simp add: parse_page_token_def decode_page_token_def split: sum.splits)

lemma store_ListVehicles_bad_token:
  assumes "PageToken params \<noteq> []" "decode_page_token (PageToken params) = Inl e"
  shows "\<exists>err. store_ListVehicles db params = Inl err"
proof -
  let ?p = "if PageSize params \<le> 0 \<or> PageSize params > 100
            then params\<lparr>PageSize := 50\<rparr> else params"
  have "PageToken ?p = PageToken params" by simp
  then obtain err where "parse_page_token (PageToken ?p) = Inl err"
    using parse_page_token_bad[OF assms] by metis
  then show ?thesis
    unfolding store_ListVehicles_def Let_def by (simp only: sum.case) blast
qed

lemma service_ListVehicles_bad_token:
  assumes "req_PageToken req \<noteq> []"
    and e: "decode_page_token (req_PageToken req) = Inl e"
  shows "service_ListVehicles db req = Inl Internal"
proof -
  define params where "params =
     \<lparr>PageSize = (if (if req_PageSize req \<le> 0 then 50 else req_PageSize req) > 100 then 100
                   else (if req_PageSize req \<le> 0 then 50 else req_PageSize req)),
      PageToken = req_PageToken req,
      StatusFilter = req_StatusFilter req,
      VehicleTypeFilter =
        (case req_VehicleTypeFilter req of
           None \<Rightarrow> None
         | Some s \<Rightarrow> if s \<noteq> [] then Some s else None),
      MakeFilter =
        (case req_MakeFilter req of
           None \<Rightarrow> None
         | Some s \<Rightarrow> if s \<noteq> [] then Some s else None)\<rparr>"
  have "PageToken params = req_PageToken req" by (simp add: params_def)
  then obtain err where "store_ListVehicles db params = Inl err"
    using store_ListVehicles_bad_token[of params e db] assms(1) e by auto
  then show ?thesis
    unfolding service_ListVehicles_def Let_def params_def[symmetric] by simp
qed

lemma DecodeString_not_base64: "DecodeString ''!!!!'' = Inl CorruptInputError"
  by (simp add: DecodeString_def skip_newlines_def decodeMap_def encodeURL_def)

lemma DecodeString_hello: "DecodeString ''aGVsbG8='' = Inr ''hello''"
  by (simp add: DecodeString_def skip_newlines_def decodeMap_def encodeURL_def Let_def
        char_of_eq_iff)

lemma UnmarshalText_hello: "UnmarshalText ''hello'' = Inl ParseError"
  by (simp add: UnmarshalText_def parse_RFC3339_def parse_date_def parse_year_def isDigit_def)

text \<open>
  Claim C3 says that a page token that is not base64url, or whose bytes are not an RFC 3339
  time, makes \<^verbatim>\<open>ListVehicles\<close> fail with \<^verbatim>\<open>InvalidArgument\<close>. The token
  \<^verbatim>\<open>aGVsbG8=\<close> is the base64url text of \<^verbatim>\<open>hello\<close>, which is no time; the service
  answers \<^verbatim>\<open>Internal\<close>.
\<close>

theorem C3_counterexample:
  "DecodeString ''aGVsbG8='' = Inr ''hello''
   \<and> UnmarshalText ''hello'' = Inl ParseError
   \<and> service_ListVehicles \<lparr>vehicles = [], vehicle_types = []\<rparr>
        \<lparr>req_PageSize = 2, req_PageToken = ''aGVsbG8='', req_StatusFilter = None,
         req_VehicleTypeFilter = None, req_MakeFilter = None\<rparr> = Inl Internal
   \<and> service_ListVehicles \<lparr>vehicles = [], vehicle_types = []\<rparr>
        \<lparr>req_PageSize = 2, req_PageToken = ''aGVsbG8='', req_StatusFilter = None,
         req_VehicleTypeFilter = None, req_MakeFilter = None\<rparr> \<noteq> Inl InvalidArgument"
proof -
  have d: "decode_page_token ''aGVsbG8='' = Inl ParseError"
    by (simp add: decode_page_token_def DecodeString_hello UnmarshalText_hello)
  have "service_ListVehicles \<lparr>vehicles = [], vehicle_types = []\<rparr>
        \<lparr>req_PageSize = 2, req_PageToken = ''aGVsbG8='', req_StatusFilter = None,
         req_VehicleTypeFilter = None, req_MakeFilter = None\<rparr> = Inl Internal"
    by (rule service_ListVehicles_bad_token[where e = ParseError]) (simp_all add: d)
  then show ?thesis by (simp add: DecodeString_hello UnmarshalText_hello)
qed

text \<open>
  Claim C3, amended. A non-empty page token that is not base64url, or whose decoded bytes
  are not an RFC 3339 time, makes \<^verbatim>\<open>ListVehicles\<close> of the service fail with the code
  \<^verbatim>\<open>Internal\<close>: the store returns a plain wrapped error and the service maps every
  error of the store's list call to \<^verbatim>\<open>codes.Internal\<close>. No state is involved and
  nothing else is returned.
\<close>

theorem C3_invalid_token_is_Internal:
  assumes "req_PageToken req \<noteq> []"
    and "(\<exists>e. DecodeString (req_PageToken req) = Inl e)
         \<or> (\<exists>decoded e. DecodeString (req_PageToken req) = Inr decoded
               \<and> UnmarshalText decoded = Inl e)"
  shows "service_ListVehicles db req = Inl Internal"
proof -
  from assms(2) obtain e where "decode_page_token (req_PageToken req) = Inl e"
    by (auto simp add: decode_page_token_def)
  with assms(1) show ?thesis by (rule service_ListVehicles_bad_token)
qed

theorem C3_invalid_token_is_Internal_witness:
  "req_PageToken \<lparr>req_PageSize = 2, req_PageToken = ''!!!!'', req_StatusFilter = None,
       req_VehicleTypeFilter = None, req_MakeFilter = None\<rparr> \<noteq> []
   \<and> DecodeString ''!!!!'' = Inl CorruptInputError
   \<and> service_ListVehicles \<lparr>vehicles = [], vehicle_types = []\<rparr>
        \<lparr>req_PageSize = 2, req_PageToken = ''!!!!'', req_StatusFilter = None,
         req_VehicleTypeFilter = None, req_MakeFilter = None\<rparr> = Inl Internal"
proof -
  have "service_ListVehicles \<lparr>vehicles = [], vehicle_types = []\<rparr>
        \<lparr>req_PageSize = 2, req_PageToken = ''!!!!'', req_StatusFilter = None,
         req_VehicleTypeFilter = None, req_MakeFilter = None\<rparr> = Inl Internal"
    by (rule C3_invalid_token_is_Internal) (simp_all add: DecodeString_not_base64)
  then show ?thesis by (simp add: DecodeString_not_base64)
qed

section \<open>Listing on the example data\<close>

lemma abs_sec_t_at: "abs_sec (t_at n) = abs_sec (t_at 0) + int n"
  by (simp add: abs_sec_def t_at_def)

lemma t_nsec_t_at [simp]: "t_nsec (t_at n) = 0"
  by (simp add: t_at_def)

lemma After_t_at [simp]: "After (t_at i) (t_at j) \<longleftrightarrow> j < i"
  by (simp add: After_def abs_sec_t_at[of i] abs_sec_t_at[of j])

lemma IsZero_zeroTime [simp]: "IsZero zeroTime"
  by (simp add: IsZero_def abs_sec_def zeroTime_def daysSinceYear1_def daysBefore_def isLeap_def)

lemma not_IsZero_t_at [simp]: "\<not> IsZero (t_at n)"
  by (simp add: IsZero_def abs_sec_def t_at_def daysSinceYear1_def daysBefore_def isLeap_def)

lemma representable_t_at: "n < 60 \<Longrightarrow> representable (t_at n)"
  by (simp add: representable_def t_at_def daysIn_def)

lemma scan_example [simp]:
  "scanVehicleFromRows (example_row n, ''cab'') = Inr (example_vehicle n)"
  by (simp add: scanVehicleFromRows_def populateVehicle_def example_row_def example_vehicle_def
        VehicleStatus_value_def FuelType_value_def)

lemma inner_join_three [simp]:
  "inner_join three_vehicles
     = [(example_row (Suc 0), ''cab''), (example_row 2, ''cab''), (example_row 3, ''cab'')]"
  by (simp add: inner_join_def three_vehicles_def cab_def example_row_def)

lemma created_at_example [simp]: "created_at (example_row n) = t_at n"
  by (simp add: example_row_def)

lemma CreatedAt_example [simp]: "CreatedAt (example_vehicle n) = t_at n"
  by (simp add: example_vehicle_def)


lemma listVehiclesQuery_no_filter:
  "listVehiclesQuery db [] [] [] [] limit = take limit (order_by_created_at_desc (inner_join db))"
  by (simp add: listVehiclesQuery_def case_prod_beta)

lemma listVehiclesQuery_cursor_only:
  "cursorStr \<noteq> [] \<Longrightarrow> listVehiclesQuery db [] [] [] cursorStr limit
     = take limit (order_by_created_at_desc
         (filter (\<lambda>(v, _). created_after (created_at v) cursorStr) (inner_join db)))"
  by (simp add: listVehiclesQuery_def)

lemma order_three:
  "order_by_created_at_desc
     [(example_row (Suc 0), ''cab''), (example_row 2, ''cab''), (example_row 3, ''cab'')]
   = [(example_row 3, ''cab''), (example_row 2, ''cab''), (example_row (Suc 0), ''cab'')]"
  by (simp add: order_by_created_at_desc_def)

lemma rows_Next_three:
  "rows_Next [(example_row 3, ''cab''), (example_row 2, ''cab''),
      (example_row (Suc 0), ''cab'')] [] zeroTime
   = Inr ([example_vehicle 3, example_vehicle 2, example_vehicle (Suc 0)], t_at (Suc 0))"
  by simp

lemma first_page:
  "store_ListVehicles three_vehicles
     \<lparr>PageSize = 2, PageToken = [], StatusFilter = None, VehicleTypeFilter = None,
      MakeFilter = None\<rparr>
   = Inr ([example_vehicle 3, example_vehicle 2],
          EncodeToString (Format_RFC3339Nano (t_at 1)))"
proof -
  have q: "listVehiclesQuery three_vehicles [] [] [] [] 3
             = [(example_row 3, ''cab''), (example_row 2, ''cab''),
                (example_row (Suc 0), ''cab'')]"
    by (simp add: listVehiclesQuery_no_filter order_three)
  have m: "MarshalText (t_at (Suc 0)) = Inr (Format_RFC3339Nano (t_at (Suc 0)))"
    by (rule MarshalText_representable) (simp add: representable_t_at)
  show ?thesis
    unfolding store_ListVehicles_def Let_def
    by (simp add: parse_page_token_def q rows_Next_three m del: rows_Next.simps)
qed


lemma EncodeToString_eq_Nil [simp]: "EncodeToString s = [] \<longleftrightarrow> s = []"
  by (induction s rule: EncodeToString.induct) (simp_all add: Let_def)

lemma Format_RFC3339Nano_not_Nil [simp]: "Format_RFC3339Nano t \<noteq> []"
  by (simp add: Format_RFC3339Nano_def)

lemma parse_page_token_encoded:
  assumes "representable t"
  shows "parse_page_token (EncodeToString (Format_RFC3339Nano t)) = Inr t"
  using assms
  by (simp add: parse_page_token_def DecodeString_EncodeToString UnmarshalText_def
        parse_RFC3339_Format)

lemma created_after_Format:
  assumes "representable c"
  shows "created_after t (Format_RFC3339Nano c) = After t c"
  using assms by (simp add: created_after_def parse_RFC3339_Format)

lemma order_two:
  "order_by_created_at_desc [(example_row 2, ''cab''), (example_row 3, ''cab'')]
   = [(example_row 3, ''cab''), (example_row 2, ''cab'')]"
  by (simp add: order_by_created_at_desc_def)

lemma rows_Next_two:
  "rows_Next [(example_row 3, ''cab''), (example_row 2, ''cab'')] [] zeroTime
   = Inr ([example_vehicle 3, example_vehicle 2], t_at 2)"
  by simp

lemma second_page:
  "store_ListVehicles three_vehicles
     \<lparr>PageSize = 2, PageToken = EncodeToString (Format_RFC3339Nano (t_at 1)),
      StatusFilter = None, VehicleTypeFilter = None, MakeFilter = None\<rparr>
   = Inr ([example_vehicle 3, example_vehicle 2], [])"
proof -
  have r: "representable (t_at (Suc 0))" by (simp add: representable_t_at)
  have q: "listVehiclesQuery three_vehicles [] [] [] (Format_RFC3339Nano (t_at (Suc 0))) 3
             = [(example_row 3, ''cab''), (example_row 2, ''cab'')]"
    by (simp add: listVehiclesQuery_cursor_only created_after_Format[OF r] order_two)
  show ?thesis
    unfolding store_ListVehicles_def Let_def
    by (simp add: parse_page_token_encoded[OF r] q rows_Next_two del: rows_Next.simps)
qed

lemma service_first_page:
  "service_ListVehicles three_vehicles
     \<lparr>req_PageSize = 2, req_PageToken = [], req_StatusFilter = None,
      req_VehicleTypeFilter = None, req_MakeFilter = None\<rparr>
   = Inr \<lparr>Vehicles = [example_vehicle 3, example_vehicle 2],
          NextPageToken = EncodeToString (Format_RFC3339Nano (t_at 1)),
          TotalCount = 2\<rparr>"
  unfolding service_ListVehicles_def Let_def by (simp add: first_page)

lemma service_second_page:
  "service_ListVehicles three_vehicles
     \<lparr>req_PageSize = 2, req_PageToken = EncodeToString (Format_RFC3339Nano (t_at 1)),
      req_StatusFilter = None, req_VehicleTypeFilter = None, req_MakeFilter = None\<rparr>
   = Inr \<lparr>Vehicles = [example_vehicle 3, example_vehicle 2], NextPageToken = [],
          TotalCount = 2\<rparr>"
  unfolding service_ListVehicles_def Let_def
  by (simp add: second_page[unfolded One_nat_def])

lemma t_at_inject [simp]: "t_at i = t_at j \<longleftrightarrow> i = j"
  by (simp add: t_at_def)

lemma example_vehicle_inject [simp]: "example_vehicle i = example_vehicle j \<longleftrightarrow> i = j"
proof
  assume "example_vehicle i = example_vehicle j"
  then have "CreatedAt (example_vehicle i) = CreatedAt (example_vehicle j)" by simp
  then show "i = j" by simp
qed simp

section \<open>Pagination\<close>

text \<open>
  Claim C1 (page completeness) on three stored vehicles and page size 2. The first call
  returns the two newest vehicles and a non-empty token. The second call, given that
  token, returns the same two vehicles again with an empty token: the query keeps the rows
  with \<^verbatim>\<open>created_at > cursor\<close> while it sorts newest first, so the rows older than
  the cursor are never reached, and the oldest vehicle is returned by neither call.
\<close>

theorem C1_second_page_repeats_first:
  "service_ListVehicles three_vehicles
     \<lparr>req_PageSize = 2, req_PageToken = [], req_StatusFilter = None,
      req_VehicleTypeFilter = None, req_MakeFilter = None\<rparr>
   = Inr \<lparr>Vehicles = [example_vehicle 3, example_vehicle 2],
          NextPageToken = EncodeToString (Format_RFC3339Nano (t_at 1)),
          TotalCount = 2\<rparr>
   \<and> EncodeToString (Format_RFC3339Nano (t_at 1)) \<noteq> []
   \<and> service_ListVehicles three_vehicles
        \<lparr>req_PageSize = 2, req_PageToken = EncodeToString (Format_RFC3339Nano (t_at 1)),
         req_StatusFilter = None, req_VehicleTypeFilter = None, req_MakeFilter = None\<rparr>
      = Inr \<lparr>Vehicles = [example_vehicle 3, example_vehicle 2], NextPageToken = [],
             TotalCount = 2\<rparr>
   \<and> example_vehicle 1 \<notin> set [example_vehicle 3, example_vehicle 2]"
  by (simp add: service_first_page service_second_page[unfolded One_nat_def])

text \<open>
  Claim C2 (the next token is the encoded \<^verbatim>\<open>created_at\<close> of the last row of the
  truncated page) on the same input. The query returns three rows for page size 2; the
  row dropped is vehicle 1 and the last row kept is vehicle 2. The token returned is the
  encoding of the dropped row's \<^verbatim>\<open>created_at\<close>, because the loop sets
  \<^verbatim>\<open>lastCreatedAt\<close> from every row it reads, and it is not the encoding of the kept
  row's.
\<close>

theorem C2_token_of_dropped_row:
  "service_ListVehicles three_vehicles
     \<lparr>req_PageSize = 2, req_PageToken = [], req_StatusFilter = None,
      req_VehicleTypeFilter = None, req_MakeFilter = None\<rparr>
   = Inr \<lparr>Vehicles = [example_vehicle 3, example_vehicle 2],
          NextPageToken = EncodeToString (Format_RFC3339Nano (t_at 1)),
          TotalCount = 2\<rparr>
   \<and> encode_page_token (CreatedAt (example_vehicle 1))
       = Inr (EncodeToString (Format_RFC3339Nano (t_at 1)))
   \<and> encode_page_token (CreatedAt (last [example_vehicle 3, example_vehicle 2]))
       \<noteq> Inr (EncodeToString (Format_RFC3339Nano (t_at 1)))"
proof -
  have r: "representable (t_at 1)" "representable (t_at 2)"
    by (simp_all add: representable_t_at)
  have e1: "encode_page_token (t_at 1) = Inr (EncodeToString (Format_RFC3339Nano (t_at 1)))"
    unfolding encode_page_token_def MarshalText_representable[OF r(1)] by simp
  have e2: "encode_page_token (t_at 2) = Inr (EncodeToString (Format_RFC3339Nano (t_at 2)))"
    unfolding encode_page_token_def MarshalText_representable[OF r(2)] by simp
  have ne: "EncodeToString (Format_RFC3339Nano (t_at 2))
              \<noteq> EncodeToString (Format_RFC3339Nano (t_at 1))"
  proof
    assume "EncodeToString (Format_RFC3339Nano (t_at 2))
              = EncodeToString (Format_RFC3339Nano (t_at 1))"
    then have "parse_page_token (EncodeToString (Format_RFC3339Nano (t_at 2)))
                 = parse_page_token (EncodeToString (Format_RFC3339Nano (t_at 1)))"
      by simp
    then have "t_at 2 = t_at 1"
      by (simp only: parse_page_token_encoded[OF r(1)] parse_page_token_encoded[OF r(2)]
            sum.inject)
    then show False by simp
  qed
  show ?thesis
    using e1 e2 ne by (simp add: service_first_page)
qed

section \<open>Filtering by an unspecified status\<close>

lemma inner_join_vehicle: "(v, n) \<in> set (inner_join db) \<Longrightarrow> v \<in> set (vehicles db)"
  by (auto simp add: inner_join_def)

lemma listVehiclesQuery_no_status:
  assumes "list_all (\<lambda>r. status r \<noteq> statusStr) (vehicles db)" "statusStr \<noteq> []"
  shows "listVehiclesQuery db statusStr vehicleTypeStr makePattern cursorStr limit = []"
proof -
  have "filter (\<lambda>(v, _).
               (statusStr = [] \<or> status v = statusStr)
             \<and> (vehicleTypeStr = [] \<or> vehicle_type_id v = vehicleTypeStr)
             \<and> (makePattern = [] \<or> sql_like (make' v) makePattern)
             \<and> (cursorStr = [] \<or> created_after (created_at v) cursorStr))
            (inner_join db) = []"
    using assms inner_join_vehicle[of _ _ db]
    by (auto simp add: filter_empty_conv list_all_iff)
  then show ?thesis
    by (simp add: listVehiclesQuery_def order_by_created_at_desc_def)
qed

lemma store_ListVehicles_unspecified:
  assumes "list_all (\<lambda>r. status r \<noteq> ''STATUS_UNSPECIFIED'') (vehicles db)"
    and "StatusFilter params = Some VehicleStatus_STATUS_UNSPECIFIED"
    and "parse_page_token (PageToken params) = Inr cursorTime"
  shows "store_ListVehicles db params = Inr ([], [])"
proof -
  define p where "p = (if PageSize params \<le> 0 \<or> PageSize params > 100
            then params\<lparr>PageSize := 50\<rparr> else params)"
  have p: "PageToken p = PageToken params" "StatusFilter p = StatusFilter params"
    "0 < PageSize p"
    by (auto simp add: p_def)
  have q: "\<And>a b c n. listVehiclesQuery db ''STATUS_UNSPECIFIED'' a b c n = []"
    by (rule listVehiclesQuery_no_status[OF assms(1)]) simp
  show ?thesis
    unfolding store_ListVehicles_def p_def[symmetric] Let_def p(1) p(2) assms(2) assms(3)
    using p(3) by (simp add: q)
qed

text \<open>
  Claim C10. When no stored vehicle has the status \<^verbatim>\<open>STATUS_UNSPECIFIED\<close> (the service
  never writes it), a list request whose status filter is explicitly
  \<^verbatim>\<open>STATUS_UNSPECIFIED\<close>, with an empty or a readable page token, returns the empty
  page: the filter reaches the query as the non-empty string \<^verbatim>\<open>STATUS_UNSPECIFIED\<close>.
\<close>

theorem C10_unspecified_status_filter_matches_nothing:
  assumes "list_all (\<lambda>r. status r \<noteq> ''STATUS_UNSPECIFIED'') (vehicles db)"
    and "req_StatusFilter req = Some VehicleStatus_STATUS_UNSPECIFIED"
    and "req_PageToken req = [] \<or> (\<exists>t. decode_page_token (req_PageToken req) = Inr t)"
  shows "service_ListVehicles db req = Inr \<lparr>Vehicles = [], NextPageToken = [], TotalCount = 0\<rparr>"
proof -
  define params where "params =
     \<lparr>PageSize = (if (if req_PageSize req \<le> 0 then 50 else req_PageSize req) > 100 then 100
                   else (if req_PageSize req \<le> 0 then 50 else req_PageSize req)),
      PageToken = req_PageToken req,
      StatusFilter = req_StatusFilter req,
      VehicleTypeFilter =
        (case req_VehicleTypeFilter req of
           None \<Rightarrow> None
         | Some s \<Rightarrow> if s \<noteq> [] then Some s else None),
      MakeFilter =
        (case req_MakeFilter req of
           None \<Rightarrow> None
         | Some s \<Rightarrow> if s \<noteq> [] then Some s else None)\<rparr>"
  have p: "PageToken params = req_PageToken req"
    "StatusFilter params = Some VehicleStatus_STATUS_UNSPECIFIED"
    by (simp_all add: params_def assms(2))
  have "\<exists>c. parse_page_token (req_PageToken req) = Inr c"
  proof (cases "req_PageToken req = []")
    case True
    then show ?thesis by (simp add: parse_page_token_def)
  next
    case False
    with assms(3) obtain t where "decode_page_token (req_PageToken req) = Inr t" by blast
    then show ?thesis using False by (simp add: parse_page_token_good)
  qed
  then obtain c where "parse_page_token (PageToken params) = Inr c"
    unfolding p(1) by blast
  then have "store_ListVehicles db params = Inr ([], [])"
    by (rule store_ListVehicles_unspecified[OF assms(1) p(2)])
  then show ?thesis
    unfolding service_ListVehicles_def Let_def params_def[symmetric] by simp
qed

lemma example_rows_ACTIVE:
  "list_all (\<lambda>r. status r \<noteq> ''STATUS_UNSPECIFIED'') (vehicles three_vehicles)"
  by (simp add: three_vehicles_def example_row_def)

text \<open>
  The witness: on the three example vehicles the explicit filter gives the empty page,
  while the same request without a status filter gives the first page above.
\<close>

theorem C10_unspecified_status_filter_matches_nothing_witness:
  "list_all (\<lambda>r. status r \<noteq> ''STATUS_UNSPECIFIED'') (vehicles three_vehicles)
   \<and> service_ListVehicles three_vehicles
        \<lparr>req_PageSize = 2, req_PageToken = [],
         req_StatusFilter = Some VehicleStatus_STATUS_UNSPECIFIED,
         req_VehicleTypeFilter = None, req_MakeFilter = None\<rparr>
      = Inr \<lparr>Vehicles = [], NextPageToken = [], TotalCount = 0\<rparr>
   \<and> service_ListVehicles three_vehicles
        \<lparr>req_PageSize = 2, req_PageToken = [], req_StatusFilter = None,
         req_VehicleTypeFilter = None, req_MakeFilter = None\<rparr>
      \<noteq> Inr \<lparr>Vehicles = [], NextPageToken = [], TotalCount = 0\<rparr>"
proof -
  have "service_ListVehicles three_vehicles
        \<lparr>req_PageSize = 2, req_PageToken = [],
         req_StatusFilter = Some VehicleStatus_STATUS_UNSPECIFIED,
         req_VehicleTypeFilter = None, req_MakeFilter = None\<rparr>
      = Inr \<lparr>Vehicles = [], NextPageToken = [], TotalCount = 0\<rparr>"
    by (rule C10_unspecified_status_filter_matches_nothing[OF example_rows_ACTIVE]) simp_all
  then show ?thesis
    by (simp add: example_rows_ACTIVE service_first_page)
qed

section \<open>Reading a vehicle from a well-formed state\<close>

lemma inner_join_mem:
  "(v, n) \<in> set (inner_join db) \<longleftrightarrow>
     v \<in> set (vehicles db) \<and> (\<exists>vt \<in> set (vehicle_types db). vt_id vt = vehicle_type_id v \<and> vt_name vt = n)"
  by (auto simp add: inner_join_def)

text \<open>A row of a well-formed state can be read.\<close>

lemma scan_wf:
  assumes "wf_db db" "r \<in> set (vehicles db)"
  shows "\<exists>v. scanVehicleFromRows (r, n) = Inr v
    \<and> VehicleStatus_value (status r) = Some (Status v)
    \<and> LicensePlate v = license_plate r"
proof -
  from assms have "VehicleStatus_value (status r) \<noteq> None" "FuelType_value (fuel_type r) \<noteq> None"
    "updated_at r \<noteq> None"
    by (auto simp add: wf_db_def list_all_iff)
  then obtain st ft u where "VehicleStatus_value (status r) = Some st"
    "FuelType_value (fuel_type r) = Some ft" "updated_at r = Some u" by auto
  then show ?thesis
    by (simp add: scanVehicleFromRows_def populateVehicle_def)
qed

lemma selected_by_key:
  assumes "distinct (map key (vehicles db))" "r \<in> set (vehicles db)"
    and fk: "vehicle_type_id r \<in> set (map vt_id (vehicle_types db))"
  obtains n rest where
    "filter (\<lambda>(v, _). key v = key r) (inner_join db) = (r, n) # rest"
proof -
  let ?sel = "filter (\<lambda>(v, _). key v = key r) (inner_join db)"
  from fk obtain vt where "vt \<in> set (vehicle_types db)" "vt_id vt = vehicle_type_id r" by auto
  then have "(r, vt_name vt) \<in> set ?sel"
    using assms(2) by (auto simp add: inner_join_mem)
  then obtain x rest where x: "?sel = x # rest" by (cases ?sel) auto
  then have "x \<in> set ?sel" by simp
  then have "fst x \<in> set (vehicles db)" "key (fst x) = key r"
    by (auto simp add: inner_join_mem)
  then have "fst x = r"
    using assms(1,2) by (auto simp add: distinct_map inj_on_def)
  then have "x = (r, snd x)" by (cases x) simp
  then show ?thesis using that x by metis
qed

lemma GetVehicleByID_wf:
  assumes "wf_db db" "r \<in> set (vehicles db)"
  obtains v where "store_GetVehicleByID db (external_id r) = Inr v"
    "VehicleStatus_value (status r) = Some (Status v)"
proof -
  have d: "distinct (map external_id (vehicles db))"
    and fk: "vehicle_type_id r \<in> set (map vt_id (vehicle_types db))"
    using assms by (auto simp add: wf_db_def list_all_iff)
  obtain n rest where s: "filter (\<lambda>(v, _). external_id v = external_id r) (inner_join db)
      = (r, n) # rest"
    by (rule selected_by_key[OF d assms(2) fk])
  obtain v where "scanVehicleFromRows (r, n) = Inr v"
    "VehicleStatus_value (status r) = Some (Status v)"
    using scan_wf[OF assms, of n] by blast
  then show ?thesis
    using that by (simp add: store_GetVehicleByID_def s scanVehicle_def)
qed

lemma GetVehicleByLicensePlate_wf:
  assumes "wf_db db" "r \<in> set (vehicles db)"
  obtains v where "store_GetVehicleByLicensePlate db (license_plate r) = Inr v"
proof -
  have d: "distinct (map license_plate (vehicles db))"
    and fk: "vehicle_type_id r \<in> set (map vt_id (vehicle_types db))"
    using assms by (auto simp add: wf_db_def list_all_iff)
  obtain n rest where s: "filter (\<lambda>(v, _). license_plate v = license_plate r) (inner_join db)
      = (r, n) # rest"
    by (rule selected_by_key[OF d assms(2) fk])
  obtain v where "scanVehicleFromRows (r, n) = Inr v"
    using scan_wf[OF assms, of n] by blast
  then show ?thesis
    using that by (simp add: store_GetVehicleByLicensePlate_def s scanVehicle_def)
qed

section \<open>Soft delete\<close>

lemma VehicleStatus_value_String [simp]: "VehicleStatus_value (VehicleStatus_String st) = Some st"
  by (cases st) (simp_all add: VehicleStatus_value_def)

lemma VehicleStatus_value_eq:
  "VehicleStatus_value s = Some st \<Longrightarrow> s = VehicleStatus_String st"
  by (cases st) (auto simp add: VehicleStatus_value_def split: if_splits)

lemma store_DeleteVehicle_not_found_iff:
  "snd (store_DeleteVehicle db now e) = Some ErrVehicleNotFound
   \<longleftrightarrow> length (filter (\<lambda>x. external_id x = e \<and> status x \<noteq> ''RETIRED'') (vehicles db)) = 0"
  by (simp add: store_DeleteVehicle_def Let_def)

lemma store_DeleteVehicle_retires:
  assumes "r \<in> set (vehicles db)" "status r \<noteq> ''RETIRED''"
  shows "store_DeleteVehicle db now (external_id r)
     = (db\<lparr>vehicles := map (\<lambda>x. if external_id x = external_id r \<and> status x \<noteq> ''RETIRED''
                                  then x\<lparr>status := ''RETIRED'', updated_at := Some now\<rparr>
                                  else x) (vehicles db)\<rparr>, None)"
proof -
  have "filter (\<lambda>x. external_id x = external_id r \<and> status x \<noteq> ''RETIRED'') (vehicles db) \<noteq> []"
    using assms by (auto simp add: filter_empty_conv)
  then show ?thesis by (simp add: store_DeleteVehicle_def Let_def)
qed

lemma store_DeleteVehicle_already_retired:
  assumes "\<forall>x \<in> set (vehicles db). external_id x = e \<longrightarrow> status x = ''RETIRED''"
  shows "store_DeleteVehicle db now e = (db, Some ErrVehicleNotFound)"
proof -
  have "filter (\<lambda>x. external_id x = e \<and> status x \<noteq> ''RETIRED'') (vehicles db) = []"
    using assms by (auto simp add: filter_empty_conv)
  then show ?thesis by (simp add: store_DeleteVehicle_def Let_def)
qed

text \<open>A soft delete keeps the state well-formed.\<close>

lemma wf_db_retire:
  assumes "wf_db db"
  shows "wf_db (db\<lparr>vehicles := map (\<lambda>x. if sel x
                                  then x\<lparr>status := ''RETIRED'', updated_at := Some now\<rparr>
                                  else x) (vehicles db)\<rparr>)"
proof -
  let ?g = "\<lambda>x. if sel x then x\<lparr>status := ''RETIRED'', updated_at := Some now\<rparr> else x"
  have k: "map internal_id (map ?g (vehicles db)) = map internal_id (vehicles db)"
    "map external_id (map ?g (vehicles db)) = map external_id (vehicles db)"
    "map license_plate (map ?g (vehicles db)) = map license_plate (vehicles db)"
    by (simp_all add: comp_def if_distrib cong: if_cong)
  have v: "VehicleStatus_value ''RETIRED'' \<noteq> None" by (simp add: VehicleStatus_value_def)
  show ?thesis
    using assms v unfolding wf_db_def
    by (simp add: k list_all_iff del: map_map) auto
qed


text \<open>
  Claim C6. For a stored vehicle whose status is neither \<^verbatim>\<open>RETIRED\<close> nor
  \<^verbatim>\<open>ASSIGNED\<close>, \<^verbatim>\<open>DeleteVehicle\<close> on its identifier succeeds and leaves the row
  with the status \<^verbatim>\<open>RETIRED\<close> (and a new \<^verbatim>\<open>updated_at\<close>), every other row as it was;
  a second \<^verbatim>\<open>DeleteVehicle\<close> on the same identifier fails with \<^verbatim>\<open>NotFound\<close> and
  changes nothing. The store reports not-found exactly when the statement guarded by
  \<^verbatim>\<open>status != 'RETIRED'\<close> affects no row.
\<close>

theorem C6_soft_delete_then_not_found:
  assumes wf: "wf_db db" and r: "r \<in> set (vehicles db)"
    and st: "status r \<noteq> ''RETIRED''" "status r \<noteq> ''ASSIGNED''"
    and vid: "VehicleId \<noteq> []" "FromString VehicleId = Some (external_id r)"
  shows "\<exists>db1.
      service_DeleteVehicle FromString db now VehicleId = (db1, None)
    \<and> db1 = db\<lparr>vehicles :=
               map (\<lambda>x. if external_id x = external_id r \<and> status x \<noteq> ''RETIRED''
                         then x\<lparr>status := ''RETIRED'', updated_at := Some now\<rparr> else x)
                 (vehicles db)\<rparr>
    \<and> (\<exists>r1 \<in> set (vehicles db1). external_id r1 = external_id r \<and> status r1 = ''RETIRED'')
    \<and> service_DeleteVehicle FromString db1 now' VehicleId = (db1, Some NotFound)
    \<and> (snd (store_DeleteVehicle db1 now' (external_id r)) = Some ErrVehicleNotFound
         \<longleftrightarrow> length (filter (\<lambda>x. external_id x = external_id r \<and> status x \<noteq> ''RETIRED'')
                        (vehicles db1)) = 0)"
proof -
  let ?g = "\<lambda>x. if external_id x = external_id r \<and> status x \<noteq> ''RETIRED''
                then x\<lparr>status := ''RETIRED'', updated_at := Some now\<rparr> else x"
  define db1 where "db1 = db\<lparr>vehicles := map ?g (vehicles db)\<rparr>"
  text \<open>The first call.\<close>
  obtain v where v: "store_GetVehicleByID db (external_id r) = Inr v"
    "VehicleStatus_value (status r) = Some (Status v)"
    by (rule GetVehicleByID_wf[OF wf r])
  have "Status v \<noteq> VehicleStatus_ASSIGNED"
    using VehicleStatus_value_eq[OF v(2)] st(2) by auto
  moreover have d: "store_DeleteVehicle db now (external_id r) = (db1, None)"
    unfolding db1_def by (rule store_DeleteVehicle_retires[OF r st(1)])
  ultimately have first: "service_DeleteVehicle FromString db now VehicleId = (db1, None)"
    using vid v(1) by (simp add: service_DeleteVehicle_def)
  text \<open>The state after it.\<close>
  have wf1: "wf_db db1" unfolding db1_def by (rule wf_db_retire[OF wf])
  define r1 where "r1 = r\<lparr>status := ''RETIRED'', updated_at := Some now\<rparr>"
  have vs1: "vehicles db1 = map ?g (vehicles db)" by (simp add: db1_def)
  have gr: "?g r = r1" using st(1) by (simp add: r1_def)
  have "?g r \<in> set (map ?g (vehicles db))" using r by (simp only: set_map) (rule imageI)
  then have r1: "r1 \<in> set (vehicles db1)" unfolding vs1 gr .
  have r1k: "external_id r1 = external_id r" "status r1 = ''RETIRED''"
    by (simp_all add: r1_def)
  have inj: "inj_on external_id (set (vehicles db))"
    using wf by (simp add: wf_db_def distinct_map)
  have all: "\<forall>x \<in> set (vehicles db1). external_id x = external_id r \<longrightarrow> status x = ''RETIRED''"
  proof (intro ballI impI)
    fix x assume "x \<in> set (vehicles db1)" and e: "external_id x = external_id r"
    then obtain y where y: "y \<in> set (vehicles db)" "x = ?g y" unfolding vs1 by auto
    then have "external_id y = external_id r" using e by (auto split: if_splits)
    then have "y = r" using inj y(1) r by (auto simp add: inj_on_def)
    then show "status x = ''RETIRED''" using y(2) st(1) by simp
  qed
  text \<open>The second call.\<close>
  obtain v1 where v1: "store_GetVehicleByID db1 (external_id r1) = Inr v1"
    "VehicleStatus_value (status r1) = Some (Status v1)"
    by (rule GetVehicleByID_wf[OF wf1 r1])
  have "Status v1 = VehicleStatus_RETIRED"
    using v1(2) unfolding r1k by (simp add: VehicleStatus_value_def)
  moreover have "store_DeleteVehicle db1 now' (external_id r) = (db1, Some ErrVehicleNotFound)"
    by (rule store_DeleteVehicle_already_retired[OF all])
  ultimately have second:
    "service_DeleteVehicle FromString db1 now' VehicleId = (db1, Some NotFound)"
    using vid v1(1) unfolding r1k by (simp add: service_DeleteVehicle_def)
  have ex: "\<exists>r1 \<in> set (vehicles db1). external_id r1 = external_id r \<and> status r1 = ''RETIRED''"
    using r1 r1k by blast
  have "service_DeleteVehicle FromString db now VehicleId = (db1, None)
    \<and> db1 = db\<lparr>vehicles := map ?g (vehicles db)\<rparr>
    \<and> (\<exists>r1 \<in> set (vehicles db1). external_id r1 = external_id r \<and> status r1 = ''RETIRED'')
    \<and> service_DeleteVehicle FromString db1 now' VehicleId = (db1, Some NotFound)
    \<and> (snd (store_DeleteVehicle db1 now' (external_id r)) = Some ErrVehicleNotFound
         \<longleftrightarrow> length (filter (\<lambda>x. external_id x = external_id r \<and> status x \<noteq> ''RETIRED'')
                        (vehicles db1)) = 0)"
    using first second ex store_DeleteVehicle_not_found_iff[of db1 now' "external_id r"]
      db1_def by (intro conjI)
  then show ?thesis by (rule exI)
qed

lemma digit_simps:
  "digit 0 = CHR ''0''" "digit 1 = CHR ''1''" "digit 2 = CHR ''2''" "digit 3 = CHR ''3''"
  "digit (Suc 0) = CHR ''1''"
  by (simp_all add: digit_def char_of_eq_iff)

lemma wf_db_three_vehicles: "wf_db three_vehicles"
  by (simp add: wf_db_def three_vehicles_def example_row_def cab_def digit_simps
        VehicleStatus_value_def FuelType_value_def)

lemma wf_db_assigned_vehicle: "wf_db assigned_vehicle"
  by (simp add: wf_db_def assigned_vehicle_def example_row_def cab_def digit_simps
        VehicleStatus_value_def FuelType_value_def)

lemma external_id_example_2: "external_id (example_row 2) = ''0000000000000002''"
  by (simp add: example_row_def digit_simps)

theorem C6_soft_delete_then_not_found_witness:
  "wf_db three_vehicles
   \<and> example_row 2 \<in> set (vehicles three_vehicles)
   \<and> status (example_row 2) \<noteq> ''RETIRED'' \<and> status (example_row 2) \<noteq> ''ASSIGNED''
   \<and> example_FromString ''30303030303030303030303030303032'' = Some (external_id (example_row 2))
   \<and> (\<exists>db1.
        service_DeleteVehicle example_FromString three_vehicles (t_at 10)
          ''30303030303030303030303030303032'' = (db1, None)
      \<and> db1 = three_vehicles\<lparr>vehicles :=
               map (\<lambda>x. if external_id x = external_id (example_row 2) \<and> status x \<noteq> ''RETIRED''
                         then x\<lparr>status := ''RETIRED'', updated_at := Some (t_at 10)\<rparr> else x)
                 (vehicles three_vehicles)\<rparr>
      \<and> (\<exists>r1 \<in> set (vehicles db1).
            external_id r1 = external_id (example_row 2) \<and> status r1 = ''RETIRED'')
      \<and> service_DeleteVehicle example_FromString db1 (t_at 20)
          ''30303030303030303030303030303032'' = (db1, Some NotFound)
      \<and> (snd (store_DeleteVehicle db1 (t_at 20) (external_id (example_row 2)))
            = Some ErrVehicleNotFound
           \<longleftrightarrow> length (filter (\<lambda>x. external_id x = external_id (example_row 2)
                                   \<and> status x \<noteq> ''RETIRED'') (vehicles db1)) = 0))"
proof -
  have m: "example_row 2 \<in> set (vehicles three_vehicles)"
    by (simp add: three_vehicles_def)
  have s: "status (example_row 2) \<noteq> ''RETIRED''" "status (example_row 2) \<noteq> ''ASSIGNED''"
    by (simp_all add: example_row_def)
  have v: "''30303030303030303030303030303032'' \<noteq> []" by simp
  have f: "example_FromString ''30303030303030303030303030303032''
             = Some (external_id (example_row 2))"
    by (simp add: example_FromString_def external_id_example_2)
  show ?thesis
    using wf_db_three_vehicles m s f
      C6_soft_delete_then_not_found[where FromString = example_FromString
        and now = "t_at 10" and now' = "t_at 20", OF wf_db_three_vehicles m s(1) s(2) v f]
    by (intro conjI)
qed

text \<open>
  Claim C7. Deleting a stored vehicle whose status is \<^verbatim>\<open>ASSIGNED\<close> fails with
  \<^verbatim>\<open>FailedPrecondition\<close> and leaves the state as it was. The code is another one
  than that of an invalid transition: asking \<^verbatim>\<open>UpdateVehicleStatus\<close> to move the same
  vehicle to \<^verbatim>\<open>RETIRED\<close>, for which the table has no edge from \<^verbatim>\<open>ASSIGNED\<close>,
  fails with \<^verbatim>\<open>InvalidArgument\<close>.
\<close>

theorem C7_delete_assigned_is_FailedPrecondition:
  assumes wf: "wf_db db" and r: "r \<in> set (vehicles db)"
    and st: "status r = ''ASSIGNED''"
    and vid: "VehicleId \<noteq> []" "FromString VehicleId = Some (external_id r)"
  shows "service_DeleteVehicle FromString db now VehicleId = (db, Some FailedPrecondition)
    \<and> FailedPrecondition \<noteq> InvalidArgument
    \<and> service_UpdateVehicleStatus FromString db now VehicleId VehicleStatus_RETIRED
        = (db, Inl InvalidArgument)"
proof -
  obtain v where v: "store_GetVehicleByID db (external_id r) = Inr v"
    "VehicleStatus_value (status r) = Some (Status v)"
    by (rule GetVehicleByID_wf[OF wf r])
  have a: "Status v = VehicleStatus_ASSIGNED"
    using v(2) unfolding st by (simp add: VehicleStatus_value_def)
  have "service_DeleteVehicle FromString db now VehicleId = (db, Some FailedPrecondition)"
    using vid v(1) a by (simp add: service_DeleteVehicle_def)
  moreover have "\<not> IsValidStatusTransition VehicleStatus_ASSIGNED VehicleStatus_RETIRED"
    by (simp add: IsValidStatusTransition_def)
  then have "service_UpdateVehicleStatus FromString db now VehicleId VehicleStatus_RETIRED
        = (db, Inl InvalidArgument)"
    using vid v(1) a by (simp add: service_UpdateVehicleStatus_def)
  ultimately show ?thesis by simp
qed

theorem C7_delete_assigned_is_FailedPrecondition_witness:
  "wf_db assigned_vehicle
   \<and> (example_row 2)\<lparr>status := ''ASSIGNED''\<rparr> \<in> set (vehicles assigned_vehicle)
   \<and> status ((example_row 2)\<lparr>status := ''ASSIGNED''\<rparr>) = ''ASSIGNED''
   \<and> example_FromString ''30303030303030303030303030303032''
       = Some (external_id ((example_row 2)\<lparr>status := ''ASSIGNED''\<rparr>))
   \<and> service_DeleteVehicle example_FromString assigned_vehicle (t_at 10)
        ''30303030303030303030303030303032'' = (assigned_vehicle, Some FailedPrecondition)
   \<and> FailedPrecondition \<noteq> InvalidArgument
   \<and> service_UpdateVehicleStatus example_FromString assigned_vehicle (t_at 10)
        ''30303030303030303030303030303032'' VehicleStatus_RETIRED
       = (assigned_vehicle, Inl InvalidArgument)"
proof -
  have m: "(example_row 2)\<lparr>status := ''ASSIGNED''\<rparr> \<in> set (vehicles assigned_vehicle)"
    by (simp add: assigned_vehicle_def)
  have s: "status ((example_row 2)\<lparr>status := ''ASSIGNED''\<rparr>) = ''ASSIGNED''" by simp
  have v: "''30303030303030303030303030303032'' \<noteq> []" by simp
  have f: "example_FromString ''30303030303030303030303030303032''
             = Some (external_id ((example_row 2)\<lparr>status := ''ASSIGNED''\<rparr>))"
    by (simp add: example_FromString_def external_id_example_2)
  show ?thesis
    using wf_db_assigned_vehicle m s f
      C7_delete_assigned_is_FailedPrecondition[where FromString = example_FromString
        and now = "t_at 10", OF wf_db_assigned_vehicle m s v f]
    by (intro conjI) simp_all
qed

end
